theory Spec2Isabelle
  imports Complex_Main
begin

section \<open>JavaScript values\<close>

text \<open>
  The configuration object, the parsed extraction response and the option bags handed to the
  providers are untyped in the source (\<open>any\<close>).  They are modelled by the values that
  \<open>JSON.parse\<close> can build, together with \<open>undefined\<close>, which is what reading a missing
  property gives.  Text is a \<open>string\<close>: a list of 8-bit characters, read as the UTF-8 bytes
  of the JavaScript string.  Only the ASCII letters have a case, and only the ASCII white
  space characters count as white space.
\<close>

datatype jsval =
    Undefined
  | Null
  | Bool bool
  | Num real
  | Str string
  | Arr "jsval list"
  | Obj "(string \<times> jsval) list"

text \<open>\<open>ToBoolean\<close>: what \<open>if (v)\<close>, \<open>!v\<close>, \<open>a && b\<close> and \<open>a || b\<close> test.\<close>

fun truthy :: "jsval \<Rightarrow> bool" where
  "truthy Undefined = False"
| "truthy Null = False"
| "truthy (Bool b) = b"
| "truthy (Num n) = (n \<noteq> 0)"
| "truthy (Str s) = (s \<noteq> [])"
| "truthy (Arr xs) = True"
| "truthy (Obj kvs) = True"

definition js_or :: "jsval \<Rightarrow> jsval \<Rightarrow> jsval" where
  "js_or a b = (if truthy a then a else b)"

text \<open>An object used as a record of named settings; a missing key reads as \<open>undefined\<close>.\<close>

type_synonym bag = "string \<rightharpoonup> jsval"

definition field :: "bag \<Rightarrow> string \<Rightarrow> jsval" where
  "field m k = (case m k of None \<Rightarrow> Undefined | Some v \<Rightarrow> v)"

text \<open>Object spread \<open>{...a, ...b}\<close>: every own property of \<open>b\<close> overrides that of \<open>a\<close>.\<close>

definition spread :: "bag \<Rightarrow> bag \<Rightarrow> bag" where
  "spread a b = a ++ b"

section \<open>ConfigHelper\<close>

definition defaultConfig :: bag where
  "defaultConfig =
     [''modelProvider'' \<mapsto> Str ''openai'',
      ''apiKey'' \<mapsto> Str '''',
      ''geminiApiKey'' \<mapsto> Str '''',
      ''extractionModel'' \<mapsto> Str ''gpt-4o'',
      ''solutionModel'' \<mapsto> Str ''gpt-4o'',
      ''debuggingModel'' \<mapsto> Str ''gpt-4o'',
      ''ollamaUrl'' \<mapsto> Str ''localhost:11434/api'',
      ''language'' \<mapsto> Str ''javascript'',
      ''opacity'' \<mapsto> Num 1]"

text \<open>
  The configuration file: missing, unreadable as JSON, or holding an object.  \<open>writable\<close>
  says whether \<open>fs.writeFileSync\<close> succeeds; \<open>saveConfig\<close> swallows its failure.
  \<open>emitted\<close> collects the payloads of the \<open>config-updated\<close> events, oldest first.
\<close>

datatype config_file = NoFile | Corrupt | Stored bag

record config_store =
  cfg_file :: config_file
  writable :: bool
  emitted :: "bag list"

text \<open>\<open>JSON.stringify\<close> leaves out the properties whose value is \<open>undefined\<close>.\<close>

definition stringify_bag :: "bag \<Rightarrow> bag" where
  "stringify_bag m = (\<lambda>k. case m k of Some Undefined \<Rightarrow> None | r \<Rightarrow> r)"

definition saveConfig :: "bag \<Rightarrow> config_store \<Rightarrow> config_store" where
  "saveConfig c st = (if writable st then st\<lparr>cfg_file := Stored (stringify_bag c)\<rparr> else st)"

definition loadConfig :: "config_store \<Rightarrow> bag \<times> config_store" where
  "loadConfig st =
     (case cfg_file st of
        Stored c \<Rightarrow> (spread defaultConfig c, st)
      | NoFile \<Rightarrow> (defaultConfig, saveConfig defaultConfig st)
      | Corrupt \<Rightarrow> (defaultConfig, st))"

text \<open>The guard of \<open>updateConfig\<close>: \<open>updates.k !== undefined\<close> for one of five keys.\<close>

definition defined_in :: "bag \<Rightarrow> string \<Rightarrow> bool" where
  "defined_in updates k = (field updates k \<noteq> Undefined)"

definition emits_update :: "bag \<Rightarrow> bool" where
  "emits_update updates =
     (defined_in updates ''apiKey'' \<or>
      defined_in updates ''extractionModel'' \<or>
      defined_in updates ''solutionModel'' \<or>
      defined_in updates ''debuggingModel'' \<or>
      defined_in updates ''language'')"

definition updateConfig :: "bag \<Rightarrow> config_store \<Rightarrow> bag \<times> config_store" where
  "updateConfig updates st =
     (let (currentConfig, st1) = loadConfig st;
          newConfig = spread currentConfig updates;
          st2 = saveConfig newConfig st1;
          st3 = (if emits_update updates
                 then st2\<lparr>emitted := emitted st2 @ [newConfig]\<rparr> else st2)
      in (newConfig, st3))"

definition setOpacity :: "real \<Rightarrow> config_store \<Rightarrow> config_store" where
  "setOpacity opacity st =
     snd (updateConfig [''opacity'' \<mapsto> Num (min 1 (max (1 / 10) opacity))] st)"

text \<open>
  The fields of the configuration that decide which adapter is built and with what: the
  provider kind, the two credentials, the local endpoint, the three model identifiers and
  the target language.  \<open>credential_keys\<close> are the credential fields of \<open>Config\<close>.
\<close>

definition credential_keys :: "string list" where
  "credential_keys = [''apiKey'', ''geminiApiKey'']"

definition model_keys :: "string list" where
  "model_keys = [''extractionModel'', ''solutionModel'', ''debuggingModel'']"

definition touches_provider_field :: "bag \<Rightarrow> bool" where
  "touches_provider_field updates =
     list_ex (defined_in updates) (credential_keys @ model_keys @ [''language''])"

section \<open>Provider adapters: initialisation\<close>

text \<open>
  What a \<open>throw\<close> carries.  The SDK constructors and the HTTP client are libraries outside
  the repository; they are parameters of the model, collected in \<open>platform\<close>, and each may
  fail.
\<close>

datatype js_error = TypeError | Error string | HttpError nat | NetworkError | Cancel

datatype sdk_client = Client jsval jsval

record http_response =
  status :: nat
  data :: jsval

record platform =
  new_OpenAI :: "jsval \<Rightarrow> js_error + sdk_client"
  new_GoogleGenerativeAI :: "jsval \<Rightarrow> js_error + sdk_client"
  getGenerativeModel :: "sdk_client \<Rightarrow> jsval \<Rightarrow> js_error + sdk_client"
  axios_get_tags :: "jsval \<Rightarrow> js_error + http_response"

subsection \<open>OpenAIProvider\<close>

record OpenAIProvider =
  openai_client :: "sdk_client option"

definition OpenAIProvider_new :: OpenAIProvider where
  "OpenAIProvider_new = \<lparr>openai_client = None\<rparr>"

definition openai_initialize :: "platform \<Rightarrow> bag \<Rightarrow> OpenAIProvider \<Rightarrow> bool \<times> OpenAIProvider" where
  "openai_initialize pf config p =
     (if \<not> truthy (field config ''apiKey'') then (False, p)
      else case new_OpenAI pf (field config ''apiKey'') of
             Inl e \<Rightarrow> (False, p)
           | Inr c \<Rightarrow> (True, p\<lparr>openai_client := Some c\<rparr>))"

definition openai_isInitialized :: "OpenAIProvider \<Rightarrow> bool" where
  "openai_isInitialized p = (openai_client p \<noteq> None)"

subsection \<open>GeminiProvider\<close>

record GeminiProvider =
  genAI :: "sdk_client option"
  gemini_client :: "sdk_client option"

definition GeminiProvider_new :: GeminiProvider where
  "GeminiProvider_new = \<lparr>genAI = None, gemini_client = None\<rparr>"

definition gemini_modelName :: "bag \<Rightarrow> jsval" where
  "gemini_modelName config =
     js_or (field config ''geminiModel'')
       (js_or (field config ''extractionModel'') (Str ''gemini-pro-vision''))"

definition gemini_initialize :: "platform \<Rightarrow> bag \<Rightarrow> GeminiProvider \<Rightarrow> bool \<times> GeminiProvider" where
  "gemini_initialize pf config p =
     (if \<not> truthy (field config ''geminiApiKey'') then (False, p)
      else case new_GoogleGenerativeAI pf (field config ''geminiApiKey'') of
             Inl e \<Rightarrow> (False, p)
           | Inr g \<Rightarrow>
               (let p1 = p\<lparr>genAI := Some g\<rparr>
                in case getGenerativeModel pf g (gemini_modelName config) of
                     Inl e \<Rightarrow> (False, p1)
                   | Inr c \<Rightarrow> (True, p1\<lparr>gemini_client := Some c\<rparr>)))"

definition gemini_isInitialized :: "GeminiProvider \<Rightarrow> bool" where
  "gemini_isInitialized p = (gemini_client p \<noteq> None)"

text \<open>The SDK constructors of a platform never throw.\<close>

definition gemini_sdk_total :: "platform \<Rightarrow> bool" where
  "gemini_sdk_total pf =
     ((\<forall>k. \<exists>g. new_GoogleGenerativeAI pf k = Inr g) \<and>
      (\<forall>g m. \<exists>c. getGenerativeModel pf g m = Inr c))"

subsection \<open>OllamaProvider\<close>

record OllamaProvider =
  baseUrl :: jsval
  isConnected :: bool

definition OllamaProvider_new :: OllamaProvider where
  "OllamaProvider_new = \<lparr>baseUrl = Str ''http://localhost:11434/api'', isConnected = False\<rparr>"

text \<open>
  Reading a property that no prototype defines (\<open>models\<close>, \<open>name\<close>, and the field names
  of a problem description): a \<open>TypeError\<close> on \<open>undefined\<close> and \<open>null\<close>, the stored value
  on an object, \<open>undefined\<close> on everything else.  \<open>JSON.parse\<close> keeps the last of
  several equal keys.
\<close>

fun get_prop :: "jsval \<Rightarrow> string \<Rightarrow> js_error + jsval" where
  "get_prop Undefined k = Inl TypeError"
| "get_prop Null k = Inl TypeError"
| "get_prop (Obj kvs) k = Inr (case map_of (rev kvs) k of None \<Rightarrow> Undefined | Some v \<Rightarrow> v)"
| "get_prop v k = Inr Undefined"

text \<open>
  The logging in \<open>initialize\<close> after the probe: \<open>models.map(m => m.name)\<close> and
  \<open>models.filter(m => m.name.includes(..) || ..)\<close>.  The first needs \<open>models\<close> to be an
  array with no \<open>null\<close> in it, the second needs every \<open>name\<close> to have an \<open>includes\<close>
  method: a string or an array.
\<close>

fun has_includes :: "jsval \<Rightarrow> bool" where
  "has_includes (Str s) = True"
| "has_includes (Arr xs) = True"
| "has_includes v = False"

definition model_name_ok :: "jsval \<Rightarrow> bool" where
  "model_name_ok m = (case get_prop m ''name'' of Inl e \<Rightarrow> False | Inr n \<Rightarrow> has_includes n)"

definition log_models :: "jsval \<Rightarrow> js_error + unit" where
  "log_models d =
     (case get_prop d ''models'' of
        Inl e \<Rightarrow> Inl e
      | Inr ms \<Rightarrow>
          (case js_or ms (Arr []) of
             Arr xs \<Rightarrow> if list_all model_name_ok xs then Inr () else Inl TypeError
           | v \<Rightarrow> Inl TypeError))"

text \<open>
  \<open>initialize\<close> of the Ollama adapter stores the base URL, issues the probe and
  suspends; \<open>ollama_probe\<close> is what it does once the probe has been answered.
\<close>

definition ollama_set_url :: "bag \<Rightarrow> OllamaProvider \<Rightarrow> OllamaProvider" where
  "ollama_set_url config p =
     p\<lparr>baseUrl := js_or (field config ''ollamaUrl'') (Str ''http://localhost:11434/api'')\<rparr>"

definition ollama_probe :: "platform \<Rightarrow> OllamaProvider \<Rightarrow> bool \<times> OllamaProvider" where
  "ollama_probe pf p1 =
     (case axios_get_tags pf (baseUrl p1) of
        Inl e \<Rightarrow> (False, p1)
      | Inr response \<Rightarrow>
          if status response = 200
          then (let p2 = p1\<lparr>isConnected := True\<rparr>
                in case log_models (data response) of
                     Inl e \<Rightarrow> (False, p2)
                   | Inr u \<Rightarrow> (isConnected p2, p2))
          else (isConnected p1, p1))"

definition ollama_initialize :: "platform \<Rightarrow> bag \<Rightarrow> OllamaProvider \<Rightarrow> bool \<times> OllamaProvider" where
  "ollama_initialize pf config p = ollama_probe pf (ollama_set_url config p)"

definition ollama_isInitialized :: "OllamaProvider \<Rightarrow> bool" where
  "ollama_isInitialized p = isConnected p"

subsection \<open>The provider reference of ProcessingHelper\<close>

datatype provider = OpenAI OpenAIProvider | Gemini GeminiProvider | Ollama OllamaProvider

fun isInitialized :: "provider \<Rightarrow> bool" where
  "isInitialized (OpenAI p) = openai_isInitialized p"
| "isInitialized (Gemini p) = gemini_isInitialized p"
| "isInitialized (Ollama p) = ollama_isInitialized p"

text \<open>
  \<open>initialize\<close> is an \<open>async\<close> method.  The OpenAI and Gemini adapters run it to its
  end without suspending, so its answer is settled when the call returns its promise;
  the Ollama adapter suspends at the probe.  \<open>initialize_sync\<close> is the part before the
  suspension, \<open>initialize_resume\<close> the part after it, \<open>initialize\<close> the two in a row.
\<close>

datatype pending = Settled bool | Probing

fun initialize_sync :: "platform \<Rightarrow> bag \<Rightarrow> provider \<Rightarrow> pending \<times> provider" where
  "initialize_sync pf config (OpenAI p) =
     (case openai_initialize pf config p of (ok, p') \<Rightarrow> (Settled ok, OpenAI p'))"
| "initialize_sync pf config (Gemini p) =
     (case gemini_initialize pf config p of (ok, p') \<Rightarrow> (Settled ok, Gemini p'))"
| "initialize_sync pf config (Ollama p) = (Probing, Ollama (ollama_set_url config p))"

fun initialize_resume :: "platform \<Rightarrow> pending \<Rightarrow> provider \<Rightarrow> bool \<times> provider" where
  "initialize_resume pf (Settled ok) p = (ok, p)"
| "initialize_resume pf Probing (Ollama p) =
     (case ollama_probe pf p of (ok, p') \<Rightarrow> (ok, Ollama p'))"
| "initialize_resume pf Probing p = (False, p)"

definition initialize :: "platform \<Rightarrow> bag \<Rightarrow> provider \<Rightarrow> bool \<times> provider" where
  "initialize pf config p =
     (case initialize_sync pf config p of (pd, p1) \<Rightarrow> initialize_resume pf pd p1)"

text \<open>The \<open>switch\<close> on \<open>config.modelProvider || "openai"\<close>.\<close>

definition new_provider :: "bag \<Rightarrow> provider" where
  "new_provider config =
     (let providerType = js_or (field config ''modelProvider'') (Str ''openai'')
      in if providerType = Str ''gemini'' then Gemini GeminiProvider_new
         else if providerType = Str ''ollama'' then Ollama OllamaProvider_new
         else OpenAI OpenAIProvider_new)"

text \<open>
  Adapters are objects, and \<open>this.modelProvider\<close> is a reference to one or \<open>null\<close>:
  \<open>adapters\<close> holds every adapter constructed so far, and the reference is an index
  into it.

  \<open>initializeModelProvider\<close> is an \<open>async\<close> function that runs in two parts.  Up to its
  \<open>await\<close> it loads the configuration, constructs an adapter, stores the reference to
  it in \<open>this.modelProvider\<close> and calls \<open>initialize\<close> on it.  After the \<open>await\<close>,
  when \<open>initialize\<close> has answered, it stores \<open>null\<close> if the answer is \<open>false\<close> and
  stores nothing if it is \<open>true\<close>; the adapter it waited for is the one it constructed,
  whatever the reference holds by then.  Whatever else runs between the two parts reads
  the reference as the first part left it.  \<open>initializeModelProvider\<close> is the two parts
  one after the other, which is what a caller that awaits it observes.
\<close>

record helper =
  adapters :: "provider list"
  modelProvider :: "nat option"

definition visible_provider :: "helper \<Rightarrow> provider option" where
  \<comment> \<open>the adapter that \<open>this.modelProvider\<close> refers to\<close>
  "visible_provider h =
     (case modelProvider h of
        None \<Rightarrow> None
      | Some a \<Rightarrow> if a < length (adapters h) then Some (adapters h ! a) else None)"

definition initializeModelProvider_begin ::
  "platform \<Rightarrow> bag \<Rightarrow> helper \<Rightarrow> (nat \<times> pending) \<times> helper" where
  "initializeModelProvider_begin pf config h =
     (let a = length (adapters h)
      in case initialize_sync pf config (new_provider config) of
           (pd, p1) \<Rightarrow> ((a, pd), h\<lparr>adapters := adapters h @ [p1], modelProvider := Some a\<rparr>))"

definition initializeModelProvider_finish ::
  "platform \<Rightarrow> nat \<times> pending \<Rightarrow> helper \<Rightarrow> helper" where
  "initializeModelProvider_finish pf run h =
     (case run of
        (a, pd) \<Rightarrow>
          if a < length (adapters h)
          then (case initialize_resume pf pd (adapters h ! a) of
                  (ok, p') \<Rightarrow>
                    (let h1 = h\<lparr>adapters := (adapters h)[a := p']\<rparr>
                     in if ok then h1 else h1\<lparr>modelProvider := None\<rparr>))
          else h)"

definition initializeModelProvider :: "platform \<Rightarrow> bag \<Rightarrow> helper \<Rightarrow> helper" where
  "initializeModelProvider pf config h =
     (case initializeModelProvider_begin pf config h of
        (run, h1) \<Rightarrow> initializeModelProvider_finish pf run h1)"

text \<open>
  The entry check of \<open>processScreenshots\<close>, under the comment that it first
  verifies a valid client: when the reference is \<open>null\<close> it calls
  \<open>initializeModelProvider\<close> without awaiting it and tests the reference again at once, so
  it sees what the first part stored.  \<open>True\<close> means the method goes on to the stages;
  the run it has started is still to be finished.
\<close>

definition processScreenshots_guard :: "platform \<Rightarrow> bag \<Rightarrow> helper \<Rightarrow> bool \<times> helper" where
  "processScreenshots_guard pf config h =
     (if modelProvider h \<noteq> None then (True, h)
      else (case initializeModelProvider_begin pf config h of
              (run, h1) \<Rightarrow> (modelProvider h1 \<noteq> None, h1)))"

text \<open>
  The entry check of \<open>processScreenshotsHelper\<close>: it tests the reference and
  \<open>isInitialized()\<close>, awaits \<open>initializeModelProvider\<close> when either fails, and tests
  both again.
\<close>

definition provider_ready :: "helper \<Rightarrow> bool" where
  \<comment> \<open>\<open>this.modelProvider && this.modelProvider.isInitialized()\<close>\<close>
  "provider_ready h =
     (case visible_provider h of None \<Rightarrow> False | Some p \<Rightarrow> isInitialized p)"

definition processScreenshotsHelper_guard :: "platform \<Rightarrow> bag \<Rightarrow> helper \<Rightarrow> bool \<times> helper" where
  "processScreenshotsHelper_guard pf config h =
     (if provider_ready h then (True, h)
      else (let h1 = initializeModelProvider pf config h in (provider_ready h1, h1)))"

section \<open>String operations of the JavaScript library\<close>

text \<open>
  A text is the list of its bytes in UTF-8.  The character classes and the change of
  case below are those of the ASCII range: the white space of \<open>\s\<close> and of \<open>trim\<close> that
  lies outside it (the no-break space, the byte order mark, the line and paragraph
  separators, the space separators of Unicode) counts as ordinary text here, and
  \<open>toLowerCase\<close> leaves every letter outside that range as it is.
\<close>

definition is_space :: "char \<Rightarrow> bool" where
  \<comment> \<open>tab, line feed, vertical tab, form feed, carriage return, space\<close>
  "is_space c = (c \<in> set [CHR 0x09, CHR 0x0A, CHR 0x0B, CHR 0x0C, CHR 0x0D, CHR '' ''])"

definition is_lower :: "char \<Rightarrow> bool" where
  "is_lower c = (c \<in> set ''abcdefghijklmnopqrstuvwxyz'')"

definition is_upper :: "char \<Rightarrow> bool" where
  "is_upper c = (c \<in> set ''ABCDEFGHIJKLMNOPQRSTUVWXYZ'')"

definition is_digit :: "char \<Rightarrow> bool" where
  "is_digit c = (c \<in> set ''0123456789'')"

definition is_word :: "char \<Rightarrow> bool" where
  \<comment> \<open>the class \<open>\w\<close>\<close>
  "is_word c = (is_lower c \<or> is_upper c \<or> is_digit c \<or> c = CHR ''_'')"

definition lower_char :: "char \<Rightarrow> char" where
  "lower_char c =
     (case map_of (zip ''ABCDEFGHIJKLMNOPQRSTUVWXYZ'' ''abcdefghijklmnopqrstuvwxyz'') c of
        None \<Rightarrow> c | Some l \<Rightarrow> l)"

definition toLowerCase :: "string \<Rightarrow> string" where
  "toLowerCase s = map lower_char s"

definition trimStart :: "string \<Rightarrow> string" where
  "trimStart s = dropWhile is_space s"

definition trimEnd :: "string \<Rightarrow> string" where
  "trimEnd s = rev (dropWhile is_space (rev s))"

definition trim :: "string \<Rightarrow> string" where
  "trim s = trimEnd (trimStart s)"

fun startsWith :: "string \<Rightarrow> string \<Rightarrow> bool" where
  "startsWith s [] = True"
| "startsWith [] (p # ps) = False"
| "startsWith (c # cs) (p # ps) = (c = p \<and> startsWith cs ps)"

definition endsWith :: "string \<Rightarrow> string \<Rightarrow> bool" where
  "endsWith s p = startsWith (rev s) (rev p)"

text \<open>\<open>s.includes(p)\<close>: \<open>p\<close> occurs in \<open>s\<close> at some position.\<close>

fun js_includes :: "string \<Rightarrow> string \<Rightarrow> bool" where
  "js_includes [] p = (p = [])"
| "js_includes (c # cs) p = (startsWith (c # cs) p \<or> js_includes cs p)"

text \<open>
  \<open>s.split(sep)\<close> for a separator of one character, and \<open>parts.join(sep)\<close>.  Splitting
  always gives at least one piece; \<open>split_from\<close> carries the piece being read, reversed.
\<close>

fun split_from :: "char \<Rightarrow> string \<Rightarrow> string \<Rightarrow> string list" where
  "split_from sep cur [] = [rev cur]"
| "split_from sep cur (c # cs) =
     (if c = sep then rev cur # split_from sep [] cs else split_from sep (c # cur) cs)"

definition split_char :: "char \<Rightarrow> string \<Rightarrow> string list" where
  "split_char sep s = split_from sep [] s"

fun join :: "string \<Rightarrow> string list \<Rightarrow> string" where
  "join sep [] = []"
| "join sep [p] = p"
| "join sep (p # q # ps) = p @ sep @ join sep (q # ps)"

text \<open>
  The line terminators, which \<open>.\<close> in a regular expression does not match: line feed,
  carriage return, and U+2028 and U+2029, whose UTF-8 bytes are E2 80 A8 and E2 80 A9.
  \<open>dot_run s\<close> is the longest prefix of \<open>s\<close> that \<open>.*\<close> can match.
\<close>

definition at_line_terminator :: "string \<Rightarrow> bool" where
  "at_line_terminator s =
     (startsWith s [CHR 0x0A] \<or> startsWith s [CHR 0x0D] \<or>
      startsWith s [CHR 0xE2, CHR 0x80, CHR 0xA8] \<or>
      startsWith s [CHR 0xE2, CHR 0x80, CHR 0xA9])"

fun dot_run :: "string \<Rightarrow> string" where
  "dot_run [] = []"
| "dot_run (c # cs) = (if at_line_terminator (c # cs) then [] else c # dot_run cs)"

definition single_line :: "string \<Rightarrow> bool" where
  "single_line s = (dot_run s = s)"

text \<open>\<open>strip_prefix p s\<close> is what follows \<open>p\<close> when \<open>s\<close> starts with \<open>p\<close>.\<close>

definition strip_prefix :: "string \<Rightarrow> string \<Rightarrow> string option" where
  "strip_prefix p s = (if startsWith s p then Some (drop (length p) s) else None)"

section \<open>The chat request shared by the adapters\<close>

text \<open>
  What the stages pass to \<open>chat.completions.create\<close>: messages with a role and a content
  that is a string or an array of parts \<open>{type: "text", text}\<close> and
  \<open>{type: "image_url", image_url: {url}}\<close>; a part of any other type is \<open>OtherPart\<close>.
  The scalar options are read with \<open>||\<close> defaults, so they stay untyped.
\<close>

datatype part = TextPart string | ImagePart string | OtherPart

datatype content = Plain string | Parts "part list"

record message =
  role :: string
  content :: content

record chat_options =
  opt_model :: jsval
  messages :: "message list"
  max_tokens :: jsval
  temperature :: jsval
  top_p :: jsval
  opt_baseUrl :: jsval

text \<open>
  A content inside a template literal: a string stands for itself, an array is joined
  with commas and each part object prints as \<open>[object Object]\<close>.
\<close>

definition content_toString :: "content \<Rightarrow> string" where
  "content_toString c =
     (case c of Plain s \<Rightarrow> s
      | Parts ps \<Rightarrow> join '','' (map (\<lambda>p. ''[object Object]'') ps))"

definition content_truthy :: "content \<Rightarrow> bool" where
  "content_truthy c = (case c of Plain s \<Rightarrow> s \<noteq> [] | Parts ps \<Rightarrow> True)"

text \<open>
  The messages the extraction and debug stages build: a system message with a text, and a
  user message with one text part followed by one image part per screenshot, each a
  data URL around the base64 text of the file.  The solution stage sends two plain texts.
\<close>

definition image_url :: "string \<Rightarrow> part" where
  "image_url d = ImagePart (''data:image/png;base64,'' @ d)"

definition stage_messages :: "string \<Rightarrow> string \<Rightarrow> string list \<Rightarrow> message list" where
  "stage_messages sys txt imageDataList =
     [\<lparr>role = ''system'', content = Plain sys\<rparr>,
      \<lparr>role = ''user'', content = Parts (TextPart txt # map image_url imageDataList)\<rparr>]"

definition solution_messages :: "string \<Rightarrow> string \<Rightarrow> message list" where
  "solution_messages sys promptText =
     [\<lparr>role = ''system'', content = Plain sys\<rparr>,
      \<lparr>role = ''user'', content = Plain promptText\<rparr>]"

text \<open>The alphabet of \<open>Buffer.toString("base64")\<close>.\<close>

definition is_base64_char :: "char \<Rightarrow> bool" where
  "is_base64_char c = (is_lower c \<or> is_upper c \<or> is_digit c \<or> c \<in> set ''+/='')"

definition is_base64 :: "string \<Rightarrow> bool" where
  "is_base64 d = list_all is_base64_char d"

subsection \<open>OllamaProvider.chat.completions.create\<close>

text \<open>
  The pattern \<open>/^data:image\/[a-z]+;base64,(.+)$/\<close> applied to a URL, giving group 1.
  \<open>[a-z]+\<close> must stop where \<open>;\<close> follows, which is not a lower-case letter, so it takes
  the whole run of letters; \<open>(.+)$\<close> must reach the end of the string, so the rest must
  be non-empty and free of line terminators.
\<close>

definition match_data_url :: "string \<Rightarrow> string option" where
  "match_data_url url =
     (case strip_prefix ''data:image/'' url of
        None \<Rightarrow> None
      | Some r \<Rightarrow>
          if takeWhile is_lower r = [] then None
          else (case strip_prefix '';base64,'' (dropWhile is_lower r) of
                  None \<Rightarrow> None
                | Some d \<Rightarrow> if d \<noteq> [] \<and> single_line d then Some d else None))"

text \<open>The \<open>forEach\<close> over the parts of the user message.\<close>

fun collect_parts :: "part list \<Rightarrow> string \<times> string list \<Rightarrow> string \<times> string list" where
  "collect_parts [] acc = acc"
| "collect_parts (TextPart t # ps) (textPrompt, images) =
     collect_parts ps (textPrompt @ t, images)"
| "collect_parts (ImagePart url # ps) (textPrompt, images) =
     collect_parts ps
       (textPrompt, (case match_data_url url of None \<Rightarrow> images | Some d \<Rightarrow> images @ [d]))"
| "collect_parts (OtherPart # ps) acc = collect_parts ps acc"

definition ollama_systemPrompt :: "message list \<Rightarrow> content" where
  "ollama_systemPrompt ms =
     (case ms of
        [] \<Rightarrow> Plain []
      | m # rest \<Rightarrow> if role m = ''system'' then content m else Plain [])"

definition ollama_userMessage :: "message list \<Rightarrow> message option" where
  "ollama_userMessage ms =
     (if ms = [] then None
      else (case find (\<lambda>m. role m = ''user'') ms of
              Some m \<Rightarrow> Some m
            | None \<Rightarrow> Some (last ms)))"

definition ollama_user_parts :: "message list \<Rightarrow> string \<times> string list" where
  "ollama_user_parts ms =
     (case ollama_userMessage ms of
        None \<Rightarrow> ([], [])
      | Some m \<Rightarrow> (case content m of
                    Parts ps \<Rightarrow> collect_parts ps ([], [])
                  | Plain s \<Rightarrow> (s, [])))"

definition ollama_finalPrompt :: "message list \<Rightarrow> string" where
  "ollama_finalPrompt ms =
     (let systemPrompt = ollama_systemPrompt ms; textPrompt = fst (ollama_user_parts ms)
      in if content_truthy systemPrompt
         then content_toString systemPrompt @ [CHR 0x0A, CHR 0x0A] @ textPrompt
         else textPrompt)"

text \<open>
  The body of a POST to \<open>/generate\<close>.  \<open>req_images\<close> is \<open>None\<close> when the body has no
  \<open>images\<close> property.
\<close>

record ollama_request =
  req_url :: jsval
  req_model :: jsval
  req_prompt :: string
  req_temperature :: jsval
  req_top_p :: jsval
  req_num_predict :: jsval
  req_images :: "string list option"
  req_timeout :: nat

definition ollama_request_of :: "chat_options \<Rightarrow> string \<Rightarrow> string list option \<Rightarrow> nat \<Rightarrow> ollama_request" where
  "ollama_request_of options prompt imgs tmo =
     \<lparr>req_url = js_or (opt_baseUrl options) (Str ''http://localhost:11434/api''),
      req_model = js_or (opt_model options) (Str ''llama3.2-vision:11b''),
      req_prompt = prompt,
      req_temperature = js_or (temperature options) (Num (2 / 10)),
      req_top_p = js_or (top_p options) (Num (95 / 100)),
      req_num_predict = js_or (max_tokens options) (Num 4000),
      req_images = imgs,
      req_timeout = tmo\<rparr>"



definition ollama_images :: "(string \<Rightarrow> string) \<Rightarrow> chat_options \<Rightarrow> string list" where
  "ollama_images resize options = map resize (snd (ollama_user_parts (messages options)))"

definition ollama_first_request :: "(string \<Rightarrow> string) \<Rightarrow> chat_options \<Rightarrow> ollama_request" where
  "ollama_first_request resize options =
     (let images = ollama_images resize options
      in ollama_request_of options (ollama_finalPrompt (messages options))
           (if images \<noteq> [] then Some images else None) 120000)"



subsection \<open>GeminiProvider.chat.completions.create\<close>

datatype gemini_part = GText string | GInline jsval string

text \<open>\<open>url.split(",")[1]\<close>: the second piece, \<open>undefined\<close> when there is no comma.\<close>

definition second_piece :: "string \<Rightarrow> jsval" where
  "second_piece url =
     (case split_char (CHR '','') url of
        p # q # rest \<Rightarrow> Str q
      | ps \<Rightarrow> Undefined)"

fun gemini_item :: "part \<Rightarrow> gemini_part list" where
  "gemini_item (TextPart t) = [GText t]"
| "gemini_item (ImagePart url) =
     (if startsWith url ''data:image/'' then [GInline (second_piece url) ''image/png''] else [])"
| "gemini_item OtherPart = []"

definition gemini_message :: "message \<Rightarrow> gemini_part list" where
  "gemini_message m =
     (if role m = ''system'' then [GText (''System instruction: '' @ content_toString (content m))]
      else (case content m of
              Plain s \<Rightarrow> [GText s]
            | Parts ps \<Rightarrow> concat (map gemini_item ps)))"

definition geminiParts :: "message list \<Rightarrow> gemini_part list" where
  "geminiParts ms = concat (map gemini_message ms)"

text \<open>
  The argument of \<open>generateContent\<close>: one content with the role \<open>user\<close>.  The
  destructuring default \<open>temperature = 0.7\<close> applies to \<open>undefined\<close> only.
\<close>

record gemini_content =
  g_role :: string
  g_parts :: "gemini_part list"

record gemini_request =
  contents :: "gemini_content list"
  g_temperature :: jsval
  maxOutputTokens :: jsval

definition gemini_request_of :: "chat_options \<Rightarrow> gemini_request" where
  "gemini_request_of options =
     \<lparr>contents = [\<lparr>g_role = ''user'', g_parts = geminiParts (messages options)\<rparr>],
      g_temperature = (if temperature options = Undefined then Num (7 / 10) else temperature options),
      maxOutputTokens = js_or (max_tokens options) (Num 4000)\<rparr>"

definition gemini_create ::
  "(gemini_request \<Rightarrow> js_error + string) \<Rightarrow> GeminiProvider \<Rightarrow> chat_options \<Rightarrow> js_error + string" where
  "gemini_create generateContent p options =
     (case gemini_client p of
        None \<Rightarrow> Inl (Error ''Gemini model not initialized'')
      | Some c \<Rightarrow> generateContent (gemini_request_of options))"

subsection \<open>OpenAIProvider.chat.completions.create\<close>

definition openai_create ::
  "(chat_options \<Rightarrow> js_error + string) \<Rightarrow> OpenAIProvider \<Rightarrow> chat_options \<Rightarrow> js_error + string" where
  "openai_create sdk_create p options =
     (case openai_client p of
        None \<Rightarrow> Inl (Error ''OpenAI client not initialized'')
      | Some c \<Rightarrow> sdk_create options)"

subsection \<open>What the shared contract promises of a translation\<close>

text \<open>
  The text segments, the roles and the image payloads of a chat request, in order, as the
  contract describes them, and the same three readings of each backend request.
\<close>

fun part_texts :: "part \<Rightarrow> string list" where
  "part_texts (TextPart t) = [t]"
| "part_texts p = []"

definition message_texts :: "message \<Rightarrow> string list" where
  "message_texts m =
     (case content m of Plain s \<Rightarrow> [s] | Parts ps \<Rightarrow> concat (map part_texts ps))"

definition request_texts :: "message list \<Rightarrow> string list" where
  "request_texts ms = concat (map message_texts ms)"

definition request_roles :: "message list \<Rightarrow> string list" where
  "request_roles ms = map role ms"

fun gemini_part_texts :: "gemini_part \<Rightarrow> string list" where
  "gemini_part_texts (GText t) = [t]"
| "gemini_part_texts p = []"

definition gemini_texts :: "gemini_request \<Rightarrow> string list" where
  "gemini_texts rq = concat (map (\<lambda>c. concat (map gemini_part_texts (g_parts c))) (contents rq))"

definition gemini_roles :: "gemini_request \<Rightarrow> string list" where
  "gemini_roles rq = map g_role (contents rq)"

fun gemini_part_images :: "gemini_part \<Rightarrow> jsval list" where
  "gemini_part_images (GInline d mime) = [d]"
| "gemini_part_images p = []"

definition gemini_images :: "gemini_request \<Rightarrow> jsval list" where
  "gemini_images rq = concat (map (\<lambda>c. concat (map gemini_part_images (g_parts c))) (contents rq))"

section \<open>Extraction stage: choosing the problem description\<close>

text \<open>
  \<open>s.replace(/pat/g, rep)\<close> for a literal, non-empty pattern: the occurrences are found
  from left to right and do not overlap.  The counter says how many characters of an
  occurrence just replaced are still to be skipped.
\<close>

fun replace_from :: "string \<Rightarrow> string \<Rightarrow> nat \<Rightarrow> string \<Rightarrow> string" where
  "replace_from pat rep k [] = []"
| "replace_from pat rep (Suc k) (c # cs) = replace_from pat rep k cs"
| "replace_from pat rep 0 (c # cs) =
     (if startsWith (c # cs) pat then rep @ replace_from pat rep (length pat - 1) cs
      else c # replace_from pat rep 0 cs)"

definition replace_all :: "string \<Rightarrow> string \<Rightarrow> string \<Rightarrow> string" where
  "replace_all pat rep s = replace_from pat rep 0 s"

text \<open>
  \<open>responseText.replace(/```json|```/g, "")\<close>: at a fence the first alternative is tried
  first, so a fence followed by \<open>json\<close> goes together with that word.
\<close>

fun strip_fences_from :: "nat \<Rightarrow> string \<Rightarrow> string" where
  "strip_fences_from k [] = []"
| "strip_fences_from (Suc k) (c # cs) = strip_fences_from k cs"
| "strip_fences_from 0 (c # cs) =
     (if startsWith (c # cs) ''```json'' then strip_fences_from 6 cs
      else if startsWith (c # cs) ''```'' then strip_fences_from 2 cs
      else c # strip_fences_from 0 cs)"

definition jsonText_of :: "string \<Rightarrow> string" where
  "jsonText_of responseText =
     (let t0 = trim (strip_fences_from 0 responseText);
          t1 = (if startsWith t0 ''['' \<and> \<not> endsWith t0 '']'' then t0 @ '']'' else t0)
      in if js_includes t1 ''}{'' then ''['' @ replace_all ''}{'' ''},{'' t1 @ '']'' else t1)"

text \<open>
  \<open>v.length\<close> of a truthy value, and \<open>n > 0\<close>.  Comparing a string, an array or an object
  with a number converts it first (\<open>ToPrimitive\<close>, \<open>ToNumber\<close>), which is the language's
  business and may throw; it is the parameter \<open>coerce\<close>.
\<close>

fun js_length :: "jsval \<Rightarrow> jsval" where
  "js_length (Str s) = Num (real (length s))"
| "js_length (Arr xs) = Num (real (length xs))"
| "js_length (Obj kvs) = (case map_of (rev kvs) ''length'' of None \<Rightarrow> Undefined | Some v \<Rightarrow> v)"
| "js_length v = Undefined"

fun gt_zero :: "(jsval \<Rightarrow> js_error + bool) \<Rightarrow> jsval \<Rightarrow> js_error + bool" where
  "gt_zero coerce Undefined = Inr False"
| "gt_zero coerce Null = Inr False"
| "gt_zero coerce (Bool b) = Inr b"
| "gt_zero coerce (Num n) = Inr (0 < n)"
| "gt_zero coerce v = coerce v"

text \<open>
  The callback of \<open>problemInfo.find\<close>:
  \<open>p.problem_statement && ((p.constraints && p.constraints.length > 0) ||
  (p.example_input && p.example_output))\<close>, read as a truth value.  It throws on an
  element that is \<open>null\<close>.
\<close>

definition has_constraints :: "(jsval \<Rightarrow> js_error + bool) \<Rightarrow> jsval \<Rightarrow> js_error + bool" where
  "has_constraints coerce c = (if truthy c then gt_zero coerce (js_length c) else Inr False)"

definition isComplete :: "(jsval \<Rightarrow> js_error + bool) \<Rightarrow> jsval \<Rightarrow> js_error + bool" where
  "isComplete coerce p =
     (case get_prop p ''problem_statement'' of
        Inl e \<Rightarrow> Inl e
      | Inr ps \<Rightarrow>
          if \<not> truthy ps then Inr False
          else (case get_prop p ''constraints'' of
                  Inl e \<Rightarrow> Inl e
                | Inr c \<Rightarrow>
                    (case has_constraints coerce c of
                       Inl e \<Rightarrow> Inl e
                     | Inr True \<Rightarrow> Inr True
                     | Inr False \<Rightarrow>
                         (case get_prop p ''example_input'' of
                            Inl e \<Rightarrow> Inl e
                          | Inr ei \<Rightarrow>
                              if \<not> truthy ei then Inr False
                              else (case get_prop p ''example_output'' of
                                      Inl e \<Rightarrow> Inl e
                                    | Inr eo \<Rightarrow> Inr (truthy eo))))))"

text \<open>\<open>Array.prototype.find\<close> with that callback; \<open>None\<close> is the result \<open>undefined\<close>.\<close>

fun find_complete :: "(jsval \<Rightarrow> js_error + bool) \<Rightarrow> jsval list \<Rightarrow> js_error + jsval option" where
  "find_complete coerce [] = Inr None"
| "find_complete coerce (p # ps) =
     (case isComplete coerce p of
        Inl e \<Rightarrow> Inl e
      | Inr True \<Rightarrow> Inr (Some p)
      | Inr False \<Rightarrow> find_complete coerce ps)"

definition first_element :: "jsval list \<Rightarrow> jsval" where
  \<comment> \<open>\<open>problemInfo[0]\<close>\<close>
  "first_element xs = (case xs of [] \<Rightarrow> Undefined | x # rest \<Rightarrow> x)"

text \<open>
  What the \<open>try\<close> around \<open>JSON.parse\<close> leaves in \<open>problemInfo\<close>, from the parsed value;
  an error sends the stage to its regular-expression fallback.
\<close>

fun select_problem :: "(jsval \<Rightarrow> js_error + bool) \<Rightarrow> jsval \<Rightarrow> js_error + jsval" where
  "select_problem coerce (Arr xs) =
     (case find_complete coerce xs of
        Inl e \<Rightarrow> Inl e
      | Inr None \<Rightarrow> Inr (first_element xs)
      | Inr (Some completeProblem) \<Rightarrow> Inr (js_or completeProblem (first_element xs)))"
| "select_problem coerce v = Inr v"

definition json_path ::
  "(string \<Rightarrow> js_error + jsval) \<Rightarrow> (jsval \<Rightarrow> js_error + bool) \<Rightarrow> string \<Rightarrow> js_error + jsval" where
  "json_path JSON_parse coerce responseText =
     (case JSON_parse (jsonText_of responseText) of
        Inl e \<Rightarrow> Inl e
      | Inr v \<Rightarrow> select_problem coerce v)"

subsection \<open>The completeness of a candidate, as the specification words it\<close>

text \<open>
  A candidate is a JSON object whose four fields, where present and not \<open>null\<close>, have the
  types of a problem description: texts, and an array of constraints.  It is complete
  when its statement is a non-empty text and either its constraints are a non-empty
  array or both examples are non-empty texts.
\<close>

definition fld :: "jsval \<Rightarrow> string \<Rightarrow> jsval" where
  "fld p k = (case get_prop p k of Inl e \<Rightarrow> Undefined | Inr v \<Rightarrow> v)"

fun text_or_missing :: "jsval \<Rightarrow> bool" where
  "text_or_missing Undefined = True"
| "text_or_missing Null = True"
| "text_or_missing (Str s) = True"
| "text_or_missing v = False"

fun items_or_missing :: "jsval \<Rightarrow> bool" where
  "items_or_missing Undefined = True"
| "items_or_missing Null = True"
| "items_or_missing (Arr xs) = True"
| "items_or_missing v = False"

fun is_candidate :: "jsval \<Rightarrow> bool" where
  "is_candidate (Obj kvs) =
     (text_or_missing (fld (Obj kvs) ''problem_statement'') \<and>
      items_or_missing (fld (Obj kvs) ''constraints'') \<and>
      text_or_missing (fld (Obj kvs) ''example_input'') \<and>
      text_or_missing (fld (Obj kvs) ''example_output''))"
| "is_candidate v = False"

fun nonempty_text :: "jsval \<Rightarrow> bool" where
  "nonempty_text (Str s) = (s \<noteq> [])"
| "nonempty_text v = False"

fun nonempty_items :: "jsval \<Rightarrow> bool" where
  "nonempty_items (Arr xs) = (xs \<noteq> [])"
| "nonempty_items v = False"

definition spec_complete :: "jsval \<Rightarrow> bool" where
  "spec_complete p =
     (nonempty_text (fld p ''problem_statement'') \<and>
      (nonempty_items (fld p ''constraints'') \<or>
       (nonempty_text (fld p ''example_input'') \<and> nonempty_text (fld p ''example_output''))))"

definition spec_selected :: "jsval list \<Rightarrow> jsval" where
  "spec_selected xs =
     (case find spec_complete xs of Some p \<Rightarrow> p | None \<Rightarrow> first_element xs)"

text \<open>
  The same condition read on any value: a field counts as non-empty when it is truthy, and
  the constraints also need a positive length.  An element is plain when reading its
  fields cannot throw and comparing the length of its constraints needs no conversion.
\<close>

fun positive_length :: "jsval \<Rightarrow> bool" where
  "positive_length (Str s) = (s \<noteq> [])"
| "positive_length (Arr xs) = (xs \<noteq> [])"
| "positive_length v = False"

definition js_complete :: "jsval \<Rightarrow> bool" where
  "js_complete p =
     (truthy (fld p ''problem_statement'') \<and>
      ((truthy (fld p ''constraints'') \<and> positive_length (fld p ''constraints'')) \<or>
       (truthy (fld p ''example_input'') \<and> truthy (fld p ''example_output''))))"

fun is_object :: "jsval \<Rightarrow> bool" where
  "is_object (Obj kvs) = True"
| "is_object v = False"

definition plain_element :: "jsval \<Rightarrow> bool" where
  "plain_element p =
     (p \<noteq> Null \<and> p \<noteq> Undefined \<and> \<not> is_object (fld p ''constraints''))"

section \<open>Solution stage: parsing the response\<close>

text \<open>
  \<open>find_sub pat s\<close> is the leftmost occurrence of \<open>pat\<close> in \<open>s\<close>: what precedes it and
  what follows it.
\<close>

fun find_sub :: "string \<Rightarrow> string \<Rightarrow> (string \<times> string) option" where
  "find_sub pat [] = (if pat = [] then Some ([], []) else None)"
| "find_sub pat (c # cs) =
     (if startsWith (c # cs) pat then Some ([], drop (length pat) (c # cs))
      else map_option (\<lambda>(a, b). (c # a, b)) (find_sub pat cs))"

definition fence :: string where
  "fence = ''```''"

text \<open>
  The pattern \<open>/```(?:\w+)?\s*([\s\S]*?)```/\<close> applied to the response, giving
  group 1.  The match starts at the leftmost fence.  The optional tag \<open>\w+\<close> and the white
  space \<open>\s*\<close> are greedy, and giving characters back cannot help, because what must
  follow the lazy group is a fence and the characters given back are no backticks; so the
  tag is the whole run of word characters, the white space the whole run after it, and
  the group ends where the next fence begins.  When no fence follows, no later start can
  match either, since it would need the same closing fence.
\<close>

definition codeMatch :: "string \<Rightarrow> string option" where
  "codeMatch responseContent =
     (case find_sub fence responseContent of
        None \<Rightarrow> None
      | Some (lead, r) \<Rightarrow>
          (case find_sub fence (dropWhile is_space (dropWhile is_word r)) of
             None \<Rightarrow> None
           | Some (body, after) \<Rightarrow> Some body))"

definition solution_code :: "string \<Rightarrow> string" where
  "solution_code responseContent =
     (case codeMatch responseContent of Some g \<Rightarrow> trim g | None \<Rightarrow> responseContent)"

subsection \<open>Big-O notation\<close>

text \<open>
  The pattern \<open>/O\([^)]+\)/i\<close>.  At a given start it needs the letter \<open>O\<close> in either
  case, an opening parenthesis, and a non-empty run of characters other than \<open>)\<close> that is
  followed by \<open>)\<close>; the run is greedy and cannot stop early, because \<open>)\<close> must follow.
  \<open>find_notation\<close> is the text of the leftmost match, and \<open>has_notation\<close> is the test
  the stage applies, \<open>timeComplexity.match(/O\([^)]+\)/i)\<close> read as a truth value: with
  the flag \<open>i\<close> it also holds of a lower-case \<open>o\<close> at the end of a word.
\<close>

definition not_close :: "char \<Rightarrow> bool" where
  "not_close c = (c \<noteq> CHR '')'')"

fun notation_at :: "string \<Rightarrow> string option" where
  "notation_at (c # p # rest) =
     (if (c = CHR ''O'' \<or> c = CHR ''o'') \<and> p = CHR ''('' \<and> takeWhile not_close rest \<noteq> []
         \<and> dropWhile not_close rest \<noteq> []
      then Some (c # p # takeWhile not_close rest @ '')'') else None)"
| "notation_at s = None"

fun find_notation :: "string \<Rightarrow> string option" where
  "find_notation [] = None"
| "find_notation (c # cs) =
     (case notation_at (c # cs) of Some n \<Rightarrow> Some n | None \<Rightarrow> find_notation cs)"

definition has_notation :: "string \<Rightarrow> bool" where
  "has_notation t = (find_notation t \<noteq> None)"

text \<open>\<open>s.replace(pat, rep)\<close> with a string pattern: the first occurrence only.\<close>

definition replace_first :: "string \<Rightarrow> string \<Rightarrow> string \<Rightarrow> string" where
  "replace_first pat rep s =
     (case find_sub pat s of None \<Rightarrow> s | Some (a, b) \<Rightarrow> a @ rep @ b)"

text \<open>What the stage does with the trimmed text of a complexity match.\<close>

definition with_notation :: "string \<Rightarrow> string" where
  "with_notation t =
     (case find_notation t of
        None \<Rightarrow> ''O(n) - '' @ t
      | Some notation \<Rightarrow>
          if \<not> js_includes t ''-'' \<and> \<not> js_includes t ''because''
          then notation @ '' - '' @ trim (replace_first notation [] t)
          else t)"

definition complexity_field :: "string \<Rightarrow> string option \<Rightarrow> string" where
  "complexity_field dflt m =
     (case m of
        None \<Rightarrow> dflt
      | Some g \<Rightarrow> if g \<noteq> [] then with_notation (trim g) else dflt)"

subsection \<open>The complexity headings\<close>

text \<open>
  The two patterns
  \<open>/Time complexity:?\s*([^\n]+(?:\n[^\n]+)*?)(?=\n\s*(?:Space complexity|$))/i\<close> and
  \<open>/Space complexity:?\s*([^\n]+(?:\n[^\n]+)*?)(?=\n\s*(?:[A-Z]|$))/i\<close> differ in the
  heading and in what the lookahead accepts after the white space: the words
  \<open>space complexity\<close> in any case, or an ASCII letter.

  After every \<open>[^\n]+\<close> the pattern needs a line feed, so each one takes the rest of its
  line.  Group 1 therefore starts somewhere on a line, runs to the end of that line and
  goes on over as few further non-empty lines as the lookahead needs.  The lookahead
  holds at the end of a line when a line feed follows and what comes after it is white
  space up to the end of the text or up to a terminator.
\<close>

definition starts_ci :: "string \<Rightarrow> string \<Rightarrow> bool" where
  \<comment> \<open>\<open>s\<close> starts with the lower-case text \<open>p\<close>, in any case\<close>
  "starts_ci s p = startsWith (toLowerCase (take (length p) s)) p"

definition is_letter :: "char \<Rightarrow> bool" where
  "is_letter c = (is_lower c \<or> is_upper c)"

definition time_terminator :: "string \<Rightarrow> bool" where
  "time_terminator s = starts_ci s ''space complexity''"

definition space_terminator :: "string \<Rightarrow> bool" where
  "space_terminator s = (case s of [] \<Rightarrow> False | c # cs \<Rightarrow> is_letter c)"

definition not_lf :: "char \<Rightarrow> bool" where
  "not_lf c = (c \<noteq> CHR 0x0A)"

text \<open>
  \<open>lines_after\<close> are the lines that follow the line on which the group currently ends;
  the list is empty when the text ends there.
\<close>

definition lookahead_ok :: "(string \<Rightarrow> bool) \<Rightarrow> string list \<Rightarrow> bool" where
  "lookahead_ok terminator lines_after =
     (lines_after \<noteq> [] \<and>
      (let more = dropWhile is_space (join [CHR 0x0A] lines_after)
       in more = [] \<or> terminator more))"

fun extend_group :: "(string \<Rightarrow> bool) \<Rightarrow> string \<Rightarrow> string list \<Rightarrow> string option" where
  "extend_group terminator g [] = None"
| "extend_group terminator g (l # ls) =
     (if lookahead_ok terminator (l # ls) then Some g
      else if l \<noteq> [] then extend_group terminator (g @ [CHR 0x0A] @ l) ls
      else None)"

definition group_from :: "(string \<Rightarrow> bool) \<Rightarrow> string \<Rightarrow> string option" where
  "group_from terminator p =
     (case split_char (CHR 0x0A) p of
        [] \<Rightarrow> None
      | l # ls \<Rightarrow> if l = [] then None else extend_group terminator l ls)"

text \<open>\<open>\s*\<close> before the group: the longest run first, then one character less at a time.\<close>

fun after_spaces :: "(string \<Rightarrow> bool) \<Rightarrow> nat \<Rightarrow> string \<Rightarrow> string option" where
  "after_spaces terminator 0 r = group_from terminator r"
| "after_spaces terminator (Suc k) r =
     (case group_from terminator (drop (Suc k) r) of
        Some g \<Rightarrow> Some g
      | None \<Rightarrow> after_spaces terminator k r)"

definition after_colon :: "(string \<Rightarrow> bool) \<Rightarrow> string \<Rightarrow> string option" where
  "after_colon terminator r = after_spaces terminator (length (takeWhile is_space r)) r"

text \<open>\<open>:?\<close> after the heading: with the colon first, then without it.\<close>

definition after_heading :: "(string \<Rightarrow> bool) \<Rightarrow> string \<Rightarrow> string option" where
  "after_heading terminator r =
     (case r of
        [] \<Rightarrow> after_colon terminator r
      | c # cs \<Rightarrow>
          if c = CHR '':'' then
            (case after_colon terminator cs of
               Some g \<Rightarrow> Some g
             | None \<Rightarrow> after_colon terminator r)
          else after_colon terminator r)"

fun match_heading :: "string \<Rightarrow> (string \<Rightarrow> bool) \<Rightarrow> string \<Rightarrow> string option" where
  "match_heading heading terminator [] = None"
| "match_heading heading terminator (c # cs) =
     (if starts_ci (c # cs) heading then
        (case after_heading terminator (drop (length heading) (c # cs)) of
           Some g \<Rightarrow> Some g
         | None \<Rightarrow> match_heading heading terminator cs)
      else match_heading heading terminator cs)"

definition timeMatch :: "string \<Rightarrow> string option" where
  "timeMatch responseContent = match_heading ''time complexity'' time_terminator responseContent"

definition spaceMatch :: "string \<Rightarrow> string option" where
  "spaceMatch responseContent = match_heading ''space complexity'' space_terminator responseContent"

definition default_time :: string where
  "default_time = ''O(n) - Linear time complexity because we only iterate through the array once. Each element is processed exactly one time, and the hashmap lookups are O(1) operations.''"

definition default_space :: string where
  "default_space = ''O(n) - Linear space complexity because we store elements in the hashmap. In the worst case, we might need to store all elements before finding the solution pair.''"

text \<open>
  The three fields of the result that the response text alone decides; the list of
  thoughts is not modelled.
\<close>

record solution =
  code :: string
  time_complexity :: string
  space_complexity :: string

definition parse_solution :: "string \<Rightarrow> solution" where
  "parse_solution responseContent =
     \<lparr>code = solution_code responseContent,
      time_complexity = complexity_field default_time (timeMatch responseContent),
      space_complexity = complexity_field default_space (spaceMatch responseContent)\<rparr>"

subsection \<open>The first fenced code block, as the specification words it\<close>

text \<open>
  \<open>leftmost pat s a b\<close>: \<open>pat\<close> occurs in \<open>s\<close> between \<open>a\<close> and \<open>b\<close>, and nowhere
  further to the left.  The first fenced code block of a response is what stands between
  its leftmost fence and the leftmost fence after that.

  The line of the opening fence holds, after the fence, the info string that names the
  language; the contents of the block are the lines below that line.  A block written
  on a single line has no such line, and all of it is contents.
\<close>

definition leftmost :: "string \<Rightarrow> string \<Rightarrow> string \<Rightarrow> string \<Rightarrow> bool" where
  "leftmost pat s a b =
     (s = a @ pat @ b \<and> (\<forall>a' b'. s = a' @ pat @ b' \<longrightarrow> length a \<le> length a'))"

definition first_block :: "string \<Rightarrow> string \<Rightarrow> bool" where
  "first_block s inner =
     (\<exists>lead r after. leftmost fence s lead r \<and> leftmost fence r inner after)"

definition block_contents :: "string \<Rightarrow> string" where
  "block_contents inner =
     (case dropWhile not_lf inner of [] \<Rightarrow> inner | c # below \<Rightarrow> below)"

subsection \<open>Big-O notation, as the specification words it\<close>

text \<open>
  A text contains Big-O notation of the form \<open>O(...)\<close> when the capital letter \<open>O\<close> is
  followed at once by an opening parenthesis that is closed further on.
\<close>

fun big_O :: "string \<Rightarrow> bool" where
  "big_O (c # p # rest) =
     ((c = CHR ''O'' \<and> p = CHR ''('' \<and> CHR '')'' \<in> set rest) \<or> big_O (p # rest))"
| "big_O s = False"

section \<open>Debug stage: parsing the response\<close>

subsection \<open>Stripping the markdown\<close>

text \<open>
  \<open>dot_until close r\<close> is the lazy \<open>(.*?)\<close> followed by the literal \<open>close\<close>: the group
  takes as few characters as possible, none of them a line terminator, until \<open>close\<close>
  follows.  The result is the group and what follows \<open>close\<close>.
\<close>

fun dot_until :: "string \<Rightarrow> string \<Rightarrow> (string \<times> string) option" where
  "dot_until close [] = (if close = [] then Some ([], []) else None)"
| "dot_until close (c # cs) =
     (if startsWith (c # cs) close then Some ([], drop (length close) (c # cs))
      else if at_line_terminator (c # cs) then None
      else map_option (\<lambda>(g, rest). (c # g, rest)) (dot_until close cs))"

text \<open>
  The callback of the first replacement applies \<open>/```(?:\w+)?\n?|\n?```/g\<close> to a
  code block: a fence goes together with the word characters and the one line feed after
  it, and a line feed right before a fence goes with that fence.  The counter is the
  number of characters of the current match still to be dropped.
\<close>

fun unfence :: "nat \<Rightarrow> string \<Rightarrow> string" where
  "unfence k [] = []"
| "unfence (Suc k) (c # cs) = unfence k cs"
| "unfence 0 (c # cs) =
     (if startsWith (c # cs) fence then
        (let r = drop 3 (c # cs);
             w = length (takeWhile is_word r);
             nl = (if startsWith (drop w r) [CHR 0x0A] then 1 else 0)
         in unfence (2 + w + nl) cs)
      else if startsWith (c # cs) (CHR 0x0A # fence) then unfence 3 cs
      else c # unfence 0 cs)"

text \<open>
  \<open>replace(/```[\s\S]*?```/g, callback)\<close>: a block runs from a fence to the next
  fence after it; a fence with no fence after it starts no block.
\<close>

fun code_blocks :: "nat \<Rightarrow> string \<Rightarrow> string" where
  "code_blocks k [] = []"
| "code_blocks (Suc k) (c # cs) = code_blocks k cs"
| "code_blocks 0 (c # cs) =
     (if startsWith (c # cs) fence then
        (case find_sub fence (drop 3 (c # cs)) of
           Some (inner, rest) \<Rightarrow>
             unfence 0 (fence @ inner @ fence) @ code_blocks (length inner + 5) cs
         | None \<Rightarrow> c # code_blocks 0 cs)
      else c # code_blocks 0 cs)"

text \<open>
  \<open>replace(/\*\*(.*?)\*\*/g, "$1")\<close> and \<open>replace(/\*(.*?)\*/g, "$1")\<close>: an opening
  mark, the lazy group and the closing mark are replaced by the group.
\<close>

fun unwrap :: "string \<Rightarrow> string \<Rightarrow> nat \<Rightarrow> string \<Rightarrow> string" where
  "unwrap opn cls k [] = []"
| "unwrap opn cls (Suc k) (c # cs) = unwrap opn cls k cs"
| "unwrap opn cls 0 (c # cs) =
     (if startsWith (c # cs) opn then
        (case dot_until cls (drop (length opn) (c # cs)) of
           Some (g, rest) \<Rightarrow> g @ unwrap opn cls (length opn + length g + length cls - 1) cs
         | None \<Rightarrow> c # unwrap opn cls 0 cs)
      else c # unwrap opn cls 0 cs)"

text \<open>
  \<open>replace(/\[(.*?)\]\((.*?)\)/g, "$1 ($2)")\<close>.  After the opening bracket the first
  group grows until \<open>](\<close> follows and the second group finds its closing parenthesis
  on the same line.
\<close>

fun link_tail :: "string \<Rightarrow> (string \<times> string) option" where
  "link_tail [] = None"
| "link_tail (c # cs) =
     (case (if startsWith (c # cs) ''](''
            then map_option fst (dot_until '')'' (drop 2 (c # cs))) else None) of
        Some g2 \<Rightarrow> Some ([], g2)
      | None \<Rightarrow>
          if at_line_terminator (c # cs) then None
          else map_option (\<lambda>(g1, g2). (c # g1, g2)) (link_tail cs))"

fun links :: "nat \<Rightarrow> string \<Rightarrow> string" where
  "links k [] = []"
| "links (Suc k) (c # cs) = links k cs"
| "links 0 (c # cs) =
     (if c = CHR ''['' then
        (case link_tail cs of
           Some (g1, g2) \<Rightarrow>
             g1 @ '' ('' @ g2 @ '')'' @ links (length g1 + length g2 + 3) cs
         | None \<Rightarrow> c # links 0 cs)
      else c # links 0 cs)"

text \<open>
  \<open>replace(/#+\s+(.*?)\n/g, "$1:\n")\<close>.  The run of \<open>#\<close> is taken whole, since white
  space must follow it.  The white space is tried from its longest run down to one
  character; after it the group runs to the next line feed on the same line.
\<close>

fun heading_tail :: "nat \<Rightarrow> string \<Rightarrow> (nat \<times> string) option" where
  "heading_tail 0 r = None"
| "heading_tail (Suc k) r =
     (case dot_until [CHR 0x0A] (drop (Suc k) r) of
        Some (g, rest) \<Rightarrow> Some (Suc k, g)
      | None \<Rightarrow> heading_tail k r)"

definition is_hash :: "char \<Rightarrow> bool" where
  "is_hash c = (c = CHR ''#'')"

fun headings :: "nat \<Rightarrow> string \<Rightarrow> string" where
  "headings k [] = []"
| "headings (Suc k) (c # cs) = headings k cs"
| "headings 0 (c # cs) =
     (if c = CHR ''#'' then
        (let h = length (takeWhile is_hash (c # cs));
             r = drop h (c # cs)
         in case heading_tail (length (takeWhile is_space r)) r of
              Some (k, g) \<Rightarrow> g @ '':'' @ [CHR 0x0A] @ headings (h + k + length g) cs
            | None \<Rightarrow> c # headings 0 cs)
      else c # headings 0 cs)"

text \<open>
  \<open>replace(/^\s*[-*]\s+/gm, bullet)\<close>, the bullet being U+2022 and a space.  With the
  flag \<open>m\<close> the anchor holds at the start of the text and after a line terminator;
  \<open>passed\<close> is the text already passed, last character first.
\<close>

definition bullet :: string where
  "bullet = [CHR 0xE2, CHR 0x80, CHR 0xA2]"

definition at_line_start :: "string \<Rightarrow> bool" where
  "at_line_start passed =
     (passed = [] \<or> startsWith passed [CHR 0x0A] \<or> startsWith passed [CHR 0x0D] \<or>
      startsWith passed [CHR 0xA8, CHR 0x80, CHR 0xE2] \<or>
      startsWith passed [CHR 0xA9, CHR 0x80, CHR 0xE2])"

definition bullet_match :: "string \<Rightarrow> nat option" where
  \<comment> \<open>the length of the match of \<open>\s*[-*]\s+\<close> at the start of the text\<close>
  "bullet_match s =
     (case dropWhile is_space s of
        [] \<Rightarrow> None
      | d # r \<Rightarrow>
          if (d = CHR ''-'' \<or> d = CHR ''*'') \<and> takeWhile is_space r \<noteq> []
          then Some (length (takeWhile is_space s) + 1 + length (takeWhile is_space r))
          else None)"

fun bullets :: "string \<Rightarrow> nat \<Rightarrow> string \<Rightarrow> string" where
  "bullets passed k [] = []"
| "bullets passed (Suc k) (c # cs) = bullets (c # passed) k cs"
| "bullets passed 0 (c # cs) =
     (case (if at_line_start passed then bullet_match (c # cs) else None) of
        Some n \<Rightarrow> bullet @ '' '' @ bullets (c # passed) (n - 1) cs
      | None \<Rightarrow> c # bullets (c # passed) 0 cs)"

definition cleanContent :: "string \<Rightarrow> string" where
  "cleanContent debugContent =
     bullets [] 0
       (headings 0
         (links 0
           (unwrap ''*'' ''*'' 0
             (unwrap ''**'' ''**'' 0
               (code_blocks 0 debugContent)))))"

subsection \<open>The four sections\<close>

record sections =
  issues :: string
  codeChanges :: string
  explanation :: string
  keyPoints :: string

definition dashes :: string where
  "dashes = ''-----''"

text \<open>
  \<open>cleanContent.split(/-----.*?-----/)\<close>: the pieces between the markers, a marker being
  five dashes, as little as possible on the same line, and five dashes.  \<open>cur\<close> is the
  piece being read, last character first.
\<close>

fun split_markers :: "string \<Rightarrow> nat \<Rightarrow> string \<Rightarrow> string list" where
  "split_markers cur k [] = [rev cur]"
| "split_markers cur (Suc k) (c # cs) = split_markers cur k cs"
| "split_markers cur 0 (c # cs) =
     (if startsWith (c # cs) dashes then
        (case dot_until dashes (drop 5 (c # cs)) of
           Some (g, rest) \<Rightarrow> rev cur # split_markers [] (length g + 9) cs
         | None \<Rightarrow> split_markers (c # cur) 0 cs)
      else split_markers (c # cur) 0 cs)"

definition nth_or_empty :: "string list \<Rightarrow> nat \<Rightarrow> string" where
  "nth_or_empty ps i = (if i < length ps then ps ! i else [])"

definition marker_sections :: "string \<Rightarrow> sections" where
  "marker_sections cleaned =
     (let parts = split_markers [] 0 cleaned
      in if 4 \<le> length parts
         then \<lparr>issues = trim (parts ! 1), codeChanges = trim (parts ! 2),
               explanation = trim (parts ! 3),
               keyPoints = (if 5 \<le> length parts then trim (parts ! 4) else [])\<rparr>
         else \<lparr>issues = [], codeChanges = [], explanation = [], keyPoints = []\<rparr>)"

text \<open>
  The fallback patterns, such as
  \<open>/(?:Issues identified|Problems found):([\s\S]*?)(?:Code changes|Code improvements|Explanation|$)/i\<close>:
  the leftmost heading that is followed by a colon, then as little as possible up to one
  of the closing words or, failing those, the end of the text.  The headings and closing
  words are given in lower case and are compared in any case.
\<close>

definition heading_here :: "string list \<Rightarrow> string \<Rightarrow> string option" where
  \<comment> \<open>what follows the first of the headings that stands here with its colon\<close>
  "heading_here hs s =
     (case find (\<lambda>h. starts_ci s (h @ '':'')) hs of
        None \<Rightarrow> None
      | Some h \<Rightarrow> Some (drop (length h + 1) s))"

fun until_any :: "string list \<Rightarrow> string \<Rightarrow> string" where
  "until_any closers [] = []"
| "until_any closers (c # cs) =
     (if list_ex (starts_ci (c # cs)) closers then [] else c # until_any closers cs)"

fun section_match :: "string list \<Rightarrow> string list \<Rightarrow> string \<Rightarrow> string option" where
  "section_match hs closers [] = map_option (until_any closers) (heading_here hs [])"
| "section_match hs closers (c # cs) =
     (case heading_here hs (c # cs) of
        Some r \<Rightarrow> Some (until_any closers r)
      | None \<Rightarrow> section_match hs closers cs)"

definition trimmed_or_empty :: "string option \<Rightarrow> string" where
  "trimmed_or_empty m = (case m of None \<Rightarrow> [] | Some g \<Rightarrow> trim g)"

definition keyword_sections :: "string \<Rightarrow> sections" where
  "keyword_sections cleaned =
     \<lparr>issues = trimmed_or_empty
        (section_match [''issues identified'', ''problems found'']
           [''code changes'', ''code improvements'', ''explanation''] cleaned),
      codeChanges = trimmed_or_empty
        (section_match [''code changes'', ''code improvements'', ''suggested changes'', ''fixes'']
           [''explanation'', ''key points''] cleaned),
      explanation = trimmed_or_empty
        (section_match [''explanation'', ''reasoning'', ''analysis''] [''key points''] cleaned),
      keyPoints = trimmed_or_empty
        (section_match [''key points'', ''summary'', ''takeaways''] [] cleaned)\<rparr>"

definition debug_sections :: "string \<Rightarrow> sections" where
  "debug_sections cleaned =
     (if js_includes cleaned ''----- ISSUES IDENTIFIED -----'' then marker_sections cleaned
      else keyword_sections cleaned)"

subsection \<open>The result\<close>

definition noIssuesFound :: "sections \<Rightarrow> bool" where
  "noIssuesFound sec =
     (js_includes (toLowerCase (issues sec)) ''no issues'' \<or>
      js_includes (toLowerCase (issues sec)) ''code looks correct'' \<or>
      js_includes (toLowerCase (issues sec)) ''not found'' \<or>
      js_includes (toLowerCase (codeChanges sec)) ''no code changes'' \<or>
      trim (issues sec) = [])"

definition NO_CODE_CHANGES_NEEDED :: string where
  "NO_CODE_CHANGES_NEEDED = ''__NO_CODE_CHANGES_NEEDED__''"

definition ANALYSIS_ONLY :: string where
  "ANALYSIS_ONLY = ''__ANALYSIS_ONLY__''"

definition is_code_line :: "string \<Rightarrow> bool" where
  "is_code_line line =
     (\<not> js_includes (toLowerCase line) ''should be'' \<and>
      \<not> js_includes (toLowerCase line) ''recommend'' \<and>
      \<not> js_includes (toLowerCase line) ''would change'' \<and>
      \<not> js_includes (toLowerCase line) ''here's'' \<and>
      \<not> startsWith (toLowerCase line) bullet \<and>
      trim line \<noteq> [])"

definition debug_code :: "sections \<Rightarrow> string" where
  "debug_code sec =
     (if noIssuesFound sec then NO_CODE_CHANGES_NEEDED
      else if codeChanges sec \<noteq> []
              \<and> \<not> js_includes (toLowerCase (codeChanges sec)) ''no code changes''
      then (let kept = join [CHR 0x0A]
                         (filter is_code_line (split_char (CHR 0x0A) (codeChanges sec)))
            in if trim kept = [] then ANALYSIS_ONLY else kept)
      else ANALYSIS_ONLY)"

datatype debug_status = NO_CHANGES | HAS_CHANGES

definition or_else :: "string \<Rightarrow> string \<Rightarrow> string" where
  \<comment> \<open>\<open>s || d\<close> on strings\<close>
  "or_else s d = (if s \<noteq> [] then s else d)"

definition formattedAnalysis :: "sections \<Rightarrow> string" where
  "formattedAnalysis sec =
     ''ISSUES IDENTIFIED:'' @ [CHR 0x0A] @
     or_else (issues sec) ''No specific issues identified in the visible code'' @
     [CHR 0x0A, CHR 0x0A] @ ''EXPLANATION:'' @ [CHR 0x0A] @
     or_else (explanation sec) ''No additional explanation provided'' @
     [CHR 0x0A, CHR 0x0A] @ ''KEY POINTS:'' @ [CHR 0x0A] @
     or_else (keyPoints sec)
       (bullet @ '' Review the suggested changes carefully'' @ [CHR 0x0A] @
        bullet @ '' Test the solution after making changes'')"

text \<open>The result of the stage without its list of thoughts, which is not modelled.\<close>

record debug_result =
  dbg_code :: string
  debug_analysis :: string
  dbg_status :: debug_status

definition parse_debug :: "string \<Rightarrow> debug_result" where
  "parse_debug debugContent =
     (let sec = debug_sections (cleanContent debugContent)
      in \<lparr>dbg_code = debug_code sec,
          debug_analysis = formattedAnalysis sec,
          dbg_status = (if noIssuesFound sec then NO_CHANGES else HAS_CHANGES)\<rparr>)"

subsection \<open>The no-issues condition, as the specification words it\<close>

definition contains_ci :: "string \<Rightarrow> string \<Rightarrow> bool" where
  \<comment> \<open>the lower-case phrase occurs in the text, in any case\<close>
  "contains_ci s phrase = (\<exists>pre w post. s = pre @ w @ post \<and> toLowerCase w = phrase)"

definition spec_no_issues :: "sections \<Rightarrow> bool" where
  "spec_no_issues sec =
     (contains_ci (issues sec) ''no issues'' \<or>
      contains_ci (issues sec) ''code looks correct'' \<or>
      contains_ci (issues sec) ''not found'' \<or>
      contains_ci (codeChanges sec) ''no code changes'' \<or>
      issues sec = [])"

section \<open>The initial pipeline and its cancellation\<close>

text \<open>
  The part of \<open>ProcessingHelper\<close> and of the application state that a run of the
  initial pipeline (extraction, then solution) and \<open>cancelOngoingRequests\<close> read and
  write.  The pipeline is modelled from the point where its adapter is ready.  It is an
  \<open>async\<close> function that suspends at its two \<open>chat.completions.create\<close> calls; each
  part between two suspensions is one function on the state, and whatever else happens
  while a call is in flight, a cancellation for one, is applied in between.

  An \<open>AbortController\<close> is a number; \<open>aborted\<close> lists the controllers whose \<open>abort()\<close>
  has been called.  A call in flight records the model it was issued for and the signal
  its options carry under the key \<open>signal\<close>, if any: the HTTP layer rejects a call with
  \<open>Cancel\<close> when that signal is aborted, and otherwise delivers the backend's answer.
\<close>

datatype view = Queue | Solutions

datatype event =
    INITIAL_START
  | NO_SCREENSHOTS
  | API_KEY_INVALID
  | INITIAL_SOLUTION_ERROR string
  | PROBLEM_EXTRACTED jsval
  | SOLUTION_SUCCESS solution
  | ProcessingStatus string nat

record call =
  call_model :: jsval
  call_signal :: "nat option"

datatype pipeline =
    Idle
  | Extracting call nat
  | Solving call nat bool
  | Finished "string + solution"

record app =
  mainWindow :: bool
  app_view :: view
  screenshotQueue :: "string list"
  extraScreenshotQueue :: "string list"
  problemInfo :: jsval
  hasDebugged :: bool
  currentProcessingAbortController :: "nat option"
  currentExtraProcessingAbortController :: "nat option"
  aborted :: "nat list"
  next_controller :: nat
  sent :: "event list"
  initial :: pipeline

definition send :: "event \<Rightarrow> app \<Rightarrow> app" where
  \<comment> \<open>\<open>mainWindow.webContents.send\<close>\<close>
  "send e st = st\<lparr>sent := sent st @ [e]\<rparr>"

definition settle :: "app \<Rightarrow> call \<Rightarrow> js_error + string \<Rightarrow> js_error + string" where
  "settle st c answer =
     (case call_signal c of
        Some s \<Rightarrow> if s \<in> set (aborted st) then Inl Cancel else answer
      | None \<Rightarrow> answer)"

subsection \<open>cancelOngoingRequests\<close>

definition abort_controller :: "nat option \<Rightarrow> app \<Rightarrow> app" where
  "abort_controller c st =
     (case c of None \<Rightarrow> st | Some n \<Rightarrow> st\<lparr>aborted := aborted st @ [n]\<rparr>)"

definition cancelOngoingRequests :: "app \<Rightarrow> app" where
  "cancelOngoingRequests st =
     (let wasCancelled = (currentProcessingAbortController st \<noteq> None \<or>
                          currentExtraProcessingAbortController st \<noteq> None);
          st1 = (abort_controller (currentProcessingAbortController st) st)
                  \<lparr>currentProcessingAbortController := None\<rparr>;
          st2 = (abort_controller (currentExtraProcessingAbortController st1) st1)
                  \<lparr>currentExtraProcessingAbortController := None\<rparr>;
          st3 = st2\<lparr>hasDebugged := False, problemInfo := Null\<rparr>
      in if wasCancelled \<and> mainWindow st3 then send NO_SCREENSHOTS st3 else st3)"

subsection \<open>processScreenshots, view \<open>queue\<close>\<close>

text \<open>
  Up to the first suspension: the controller is created and stored, and the extraction
  request is issued with the options \<open>model\<close>, \<open>messages\<close>, \<open>max_tokens\<close> and
  \<open>temperature\<close>; the signal is passed to the helper, not to the request.
\<close>

definition processScreenshots_start :: "bag \<Rightarrow> app \<Rightarrow> app" where
  "processScreenshots_start config st =
     (if \<not> mainWindow st then st
      else (let st1 = send INITIAL_START st
            in if screenshotQueue st1 = [] then send NO_SCREENSHOTS st1
               else (let c = next_controller st1;
                         st2 = st1\<lparr>currentProcessingAbortController := Some c,
                                   next_controller := Suc c\<rparr>;
                         st3 = send (ProcessingStatus ''Analyzing problem from screenshots...'' 20) st2
                     in st3\<lparr>initial :=
                          Extracting \<lparr>call_model = field config ''extractionModel'',
                                      call_signal = None\<rparr> c\<rparr>)))"

text \<open>
  The end of \<open>processScreenshots\<close>: the terminal event, the view, and the \<open>finally\<close> that
  forgets the controller.
\<close>

definition finish_initial :: "string + solution \<Rightarrow> app \<Rightarrow> app" where
  "finish_initial result st =
     (let st1 = (case result of
                   Inl err \<Rightarrow>
                     (send (if js_includes err ''API Key'' \<or> js_includes err ''invalid''
                            then API_KEY_INVALID else INITIAL_SOLUTION_ERROR err) st)
                       \<lparr>app_view := Queue\<rparr>
                 | Inr d \<Rightarrow> (send (SOLUTION_SUCCESS d) st)\<lparr>app_view := Solutions\<rparr>)
      in st1\<lparr>currentProcessingAbortController := None, initial := Finished result\<rparr>)"

text \<open>
  \<open>error.message\<close>.  For a response with an error status the HTTP client words it
  \<open>Request failed with status code\<close> and the status in decimal.
\<close>

fun decimal_digits :: "nat \<Rightarrow> nat \<Rightarrow> string" where
  \<comment> \<open>the last \<open>k\<close> decimal digits of \<open>n\<close>, without leading zeros\<close>
  "decimal_digits 0 n = []"
| "decimal_digits (Suc k) n =
     (if n < 10 then [''0123456789'' ! n]
      else decimal_digits k (n div 10) @ [''0123456789'' ! (n mod 10)])"

definition decimal :: "nat \<Rightarrow> string" where
  "decimal n = decimal_digits (Suc n) n"

definition error_message :: "js_error \<Rightarrow> string" where
  "error_message e =
     (case e of Error m \<Rightarrow> m | TypeError \<Rightarrow> ''TypeError''
      | HttpError n \<Rightarrow> ''Request failed with status code '' @ decimal n
      | NetworkError \<Rightarrow> ''Network Error'' | Cancel \<Rightarrow> ''canceled'')"

definition canceled_message :: string where
  "canceled_message = ''Processing was canceled by the user.''"

definition parse_failed_message :: string where
  "parse_failed_message =
     ''Failed to parse problem information. Please try again or use clearer screenshots.''"

text \<open>The \<open>catch\<close> of \<open>processScreenshotsHelper\<close> and that of \<open>generateSolutionsHelper\<close>.\<close>

definition helper_failure :: "js_error \<Rightarrow> string" where
  "helper_failure e =
     (if e = Cancel then canceled_message
      else if e = HttpError 401 then ''Invalid API key. Please check your settings.''
      else if e = HttpError 429
        then ''API rate limit exceeded or insufficient credits. Please try again later.''
      else if e = HttpError 500 then ''Server error. Please try again later.''
      else or_else (error_message e) ''Failed to process screenshots. Please try again.'')"

definition solution_failure :: "js_error \<Rightarrow> string" where
  "solution_failure e =
     (if e = HttpError 401 then ''Invalid API key. Please check your settings.''
      else if e = HttpError 429
        then ''API rate limit exceeded or insufficient credits. Please try again later.''
      else or_else (error_message e) ''Failed to generate solution'')"

text \<open>
  \<open>generateSolutionsHelper\<close> up to its request: it needs a truthy problem description
  in the application state.
\<close>

definition generateSolutions_start :: "bag \<Rightarrow> app \<Rightarrow> (string + call) \<times> app" where
  "generateSolutions_start config st =
     (if \<not> truthy (problemInfo st) then (Inl ''No problem info available'', st)
      else (Inr \<lparr>call_model = js_or (field config ''solutionModel'') (Str ''gpt-4o''),
                 call_signal = None\<rparr>,
            send (ProcessingStatus
                    ''Creating optimal solution with detailed explanations...'' 60) st))"

text \<open>
  What the parsing of the extraction response (the JSON path, the regular expressions,
  the line scan) comes to: a problem description, a minimal one from the line scan, or
  nothing.  The parsing itself is a parameter here.
\<close>

datatype extraction = Parsed jsval | Minimal jsval | Unparsed

definition after_extraction :: "bag \<Rightarrow> jsval \<Rightarrow> bool \<Rightarrow> nat \<Rightarrow> app \<Rightarrow> app" where
  "after_extraction config info minimal c st =
     (let st1 = send (if minimal
                      then ProcessingStatus
                             ''Problem analyzed with limited information. Proceeding...'' 35
                      else ProcessingStatus
                             ''Problem analyzed successfully. Preparing to generate solution...'' 40)
                  st;
          st2 = st1\<lparr>problemInfo := info\<rparr>
      in if \<not> mainWindow st2
         then finish_initial
                (Inl (if minimal then parse_failed_message else ''Failed to process screenshots''))
                st2
         else (let st3 = send (PROBLEM_EXTRACTED info) st2
               in case generateSolutions_start config st3 of
                    (Inl err, st4) \<Rightarrow>
                      finish_initial (Inl (if minimal then parse_failed_message else err)) st4
                  | (Inr c2, st4) \<Rightarrow> st4\<lparr>initial := Solving c2 c minimal\<rparr>))"

definition extraction_settled ::
  "(string \<Rightarrow> extraction) \<Rightarrow> bag \<Rightarrow> js_error + string \<Rightarrow> app \<Rightarrow> app" where
  "extraction_settled extract config answer st =
     (case initial st of
        Extracting rq c \<Rightarrow>
          (case settle st rq answer of
             Inl e \<Rightarrow> finish_initial (Inl (helper_failure e)) st
           | Inr responseText \<Rightarrow>
               (case extract responseText of
                  Unparsed \<Rightarrow> finish_initial (Inl parse_failed_message) st
                | Parsed info \<Rightarrow> after_extraction config info False c st
                | Minimal info \<Rightarrow> after_extraction config info True c st))
      | p \<Rightarrow> st)"

definition solution_settled :: "js_error + string \<Rightarrow> app \<Rightarrow> app" where
  "solution_settled answer st =
     (case initial st of
        Solving rq c minimal \<Rightarrow>
          (case settle st rq answer of
             Inl e \<Rightarrow>
               finish_initial
                 (Inl (if minimal then parse_failed_message else solution_failure e)) st
           | Inr responseContent \<Rightarrow>
               (let d = parse_solution responseContent;
                    st1 = st\<lparr>extraScreenshotQueue := []\<rparr>;
                    st2 = send (ProcessingStatus ''Solution generated successfully'' 100) st1;
                    st3 = send (SOLUTION_SUCCESS d) st2
                in finish_initial (Inr d) st3))
      | p \<Rightarrow> st)"

section \<open>Concrete inputs\<close>

text \<open>
  A platform whose SDK constructors always succeed and whose network is down, a
  processing helper that has not built an adapter yet, and a configuration that selects
  the Gemini adapter with a key.
\<close>

definition offline_platform :: platform where
  "offline_platform =
     \<lparr>new_OpenAI = (\<lambda>k. Inr (Client k Undefined)),
      new_GoogleGenerativeAI = (\<lambda>k. Inr (Client k Undefined)),
      getGenerativeModel = (\<lambda>g m. Inr (Client (Str ''model'') m)),
      axios_get_tags = (\<lambda>u. Inl NetworkError)\<rparr>"

definition helper0 :: helper where
  "helper0 = \<lparr>adapters = [], modelProvider = None\<rparr>"

definition gemini_config :: bag where
  "gemini_config =
     spread defaultConfig
       [''modelProvider'' \<mapsto> Str ''gemini'', ''geminiApiKey'' \<mapsto> Str ''AIza-key'']"

text \<open>
  An extraction request with one screenshot (the base64 text of the bytes \<open>ABC\<close>), the
  same request without a screenshot, and a backend that answers every POST with HTTP 500.
\<close>

definition demo_options :: "string list \<Rightarrow> chat_options" where
  "demo_options imageDataList =
     \<lparr>opt_model = Str ''llava'',
      messages = stage_messages ''Return JSON.'' ''Extract the problem.'' imageDataList,
      max_tokens = Num 4000, temperature = Num (2 / 10), top_p = Undefined,
      opt_baseUrl = Undefined\<rparr>"


definition demo_solution_options :: chat_options where
  "demo_solution_options =
     \<lparr>opt_model = Str ''llava'',
      messages = solution_messages ''You are an assistant.'' ''Solve it.'',
      max_tokens = Num 4000, temperature = Num (2 / 10), top_p = Undefined,
      opt_baseUrl = Undefined\<rparr>"

definition ready_openai :: OpenAIProvider where
  "ready_openai = \<lparr>openai_client = Some (Client (Str ''sk-key'') Undefined)\<rparr>"

text \<open>
  The responses of scenarios A and B as \<open>JSON.parse\<close> reads them, and a conversion that
  always throws.
\<close>

definition scenario_A :: jsval where
  "scenario_A =
     Obj [(''problem_statement'', Str ''Reverse a string''), (''constraints'', Arr []),
          (''example_input'', Str ''abc''), (''example_output'', Str ''cba'')]"

definition two_sum :: jsval where
  "two_sum =
     Obj [(''problem_statement'', Str ''Two Sum''), (''example_input'', Str ''[2,7]''),
          (''example_output'', Str ''[0,1]'')]"

definition scenario_B :: "jsval list" where
  "scenario_B = [Obj [(''problem_statement'', Str '''')], two_sum]"

definition no_coerce :: "jsval \<Rightarrow> js_error + bool" where
  "no_coerce v = Inl TypeError"

text \<open>
  The text of scenario B, and a stand-in for \<open>JSON.parse\<close> that knows this text and
  the text \<open>[null]\<close>.
\<close>

definition quoted :: "string \<Rightarrow> string" where
  "quoted s = [CHR 0x22] @ s @ [CHR 0x22]"

definition scenario_B_text :: string where
  "scenario_B_text =
     ''[{'' @ quoted ''problem_statement'' @ '':'' @ quoted [] @ ''},{'' @
     quoted ''problem_statement'' @ '':'' @ quoted ''Two Sum'' @ '','' @
     quoted ''example_input'' @ '':'' @ quoted ''[2,7]'' @ '','' @
     quoted ''example_output'' @ '':'' @ quoted ''[0,1]'' @ ''}]''"

definition demo_parse :: "string \<Rightarrow> js_error + jsval" where
  "demo_parse t =
     (if t = scenario_B_text then Inr (Arr scenario_B)
      else if t = ''[null]'' then Inr (Arr [Null])
      else Inl (Error ''Unexpected token''))"

text \<open>A solution response whose complexity lines carry no Big-O notation.\<close>

definition plain_complexities :: string where
  "plain_complexities =
     ''Time complexity: linear in n'' @ [CHR 0x0A] @
     ''Space complexity: constant'' @ [CHR 0x0A]"

text \<open>
  A solution response whose two complexity lines have a word ending in \<open>o\<close> right before
  a parenthesis, and no Big-O notation.
\<close>

definition lower_case_o :: string where
  "lower_case_o =
     ''Time complexity: also(known) fast'' @ [CHR 0x0A] @
     ''Space complexity: halo(ring) size'' @ [CHR 0x0A]"

text \<open>
  A solution response that is one fenced block of C++, with what stands between its
  fences.
\<close>

definition cpp_response :: string where
  "cpp_response = ''```c++'' @ [CHR 0x0A] @ ''int x;'' @ [CHR 0x0A] @ ''```''"

definition cpp_inner :: string where
  "cpp_inner = ''c++'' @ [CHR 0x0A] @ ''int x;'' @ [CHR 0x0A]"

text \<open>A solution response with one fenced block, and one without any fence.\<close>

definition fenced_response :: string where
  "fenced_response =
     ''Here is the code:'' @ [CHR 0x0A] @ ''```python'' @ [CHR 0x0A] @
     ''print(1)'' @ [CHR 0x0A] @ ''```'' @ [CHR 0x0A] @ ''Done.''"

definition fenced_inner :: string where
  "fenced_inner = ''python'' @ [CHR 0x0A] @ ''print(1)'' @ [CHR 0x0A]"

text \<open>The debug response of scenario C.\<close>

definition scenario_C :: string where
  "scenario_C =
     ''----- ISSUES IDENTIFIED -----'' @ [CHR 0x0A] @
     ''No issues found in the visible code'' @ [CHR 0x0A] @
     ''----- CODE CHANGES -----'' @ [CHR 0x0A] @
     ''No code changes required.'' @ [CHR 0x0A] @
     ''----- EXPLANATION -----'' @ [CHR 0x0A] @
     ''Code is correct.'' @ [CHR 0x0A] @
     ''----- KEY POINTS -----'' @ [CHR 0x0A] @
     bullet @ '' Good job''"

text \<open>
  A run in which the user cancels while the extraction request is in flight: the
  application with one screenshot queued, and a parser that reads every response as the
  problem of scenario A.
\<close>

definition app0 :: app where
  "app0 =
     \<lparr>mainWindow = True, app_view = Queue, screenshotQueue = [''QUJD''],
      extraScreenshotQueue = [], problemInfo = Null, hasDebugged = False,
      currentProcessingAbortController = None,
      currentExtraProcessingAbortController = None,
      aborted = [], next_controller = 0, sent = [], initial = Idle\<rparr>"

definition extract_A :: "string \<Rightarrow> extraction" where
  "extract_A responseText = Parsed scenario_A"

definition cancelled_run :: app where
  "cancelled_run =
     solution_settled (Inr ''print(1)'')
       (extraction_settled extract_A defaultConfig (Inr ''{}'')
         (cancelOngoingRequests (processScreenshots_start defaultConfig app0)))"

text \<open>
  A well-formed response that is a single JSON object and has a closing brace followed
  by an opening one inside two of its texts; the text the stage hands to \<open>JSON.parse\<close>
  for it; and what \<open>JSON.parse\<close> reads from either.
\<close>

definition balanced_text :: string where
  "balanced_text =
     ''{'' @ quoted ''problem_statement'' @ '':'' @ quoted ''Is }{ balanced?'' @ '','' @
     quoted ''constraints'' @ '':[],'' @
     quoted ''example_input'' @ '':'' @ quoted ''}{'' @ '','' @
     quoted ''example_output'' @ '':'' @ quoted ''yes'' @ ''}''"

definition balanced_rewritten :: string where
  "balanced_rewritten =
     ''[{'' @ quoted ''problem_statement'' @ '':'' @ quoted ''Is },{ balanced?'' @ '','' @
     quoted ''constraints'' @ '':[],'' @
     quoted ''example_input'' @ '':'' @ quoted ''},{'' @ '','' @
     quoted ''example_output'' @ '':'' @ quoted ''yes'' @ ''}]''"

definition balanced_object :: jsval where
  "balanced_object =
     Obj [(''problem_statement'', Str ''Is }{ balanced?''), (''constraints'', Arr []),
          (''example_input'', Str ''}{''), (''example_output'', Str ''yes'')]"

definition balanced_changed :: jsval where
  "balanced_changed =
     Obj [(''problem_statement'', Str ''Is },{ balanced?''), (''constraints'', Arr []),
          (''example_input'', Str ''},{''), (''example_output'', Str ''yes'')]"

definition JSON_parse_demo :: "string \<Rightarrow> js_error + jsval" where
  "JSON_parse_demo t =
     (if t = balanced_text then Inr balanced_object
      else if t = balanced_rewritten then Inr (Arr [balanced_changed])
      else demo_parse t)"

section \<open>The change notification of the configuration store\<close>

lemma emits_update_iff:
  "emits_update u \<longleftrightarrow>
     list_ex (defined_in u) ([''apiKey''] @ model_keys @ [''language''])"
  by (simp add: emits_update_def model_keys_def)

lemma opacity_only_silent:
  "emitted (snd (updateConfig [''opacity'' \<mapsto> v] st)) = emitted st"
  by (simp add: updateConfig_def emits_update_def defined_in_def field_def loadConfig_def
      saveConfig_def Let_def split: config_file.splits prod.splits)

text \<open>
  C6.  The notification is not emitted for every update that touches a provider-affecting
  field: an update that sets only the Gemini credential \<open>geminiApiKey\<close> touches a
  credential, yet the guard of \<open>updateConfig\<close> does not list that key and no
  \<open>config-updated\<close> event is emitted.
\<close>

theorem updateConfig_gemini_credential_silent:
  "touches_provider_field [''geminiApiKey'' \<mapsto> Str ''AIza-key''] \<and>
   \<not> emits_update [''geminiApiKey'' \<mapsto> Str ''AIza-key''] \<and>
   emitted (snd (updateConfig [''geminiApiKey'' \<mapsto> Str ''AIza-key'']
      \<lparr>cfg_file = Stored defaultConfig, writable = True, emitted = []\<rparr>)) = []"
  by (simp add: touches_provider_field_def credential_keys_def model_keys_def
      updateConfig_def emits_update_def defined_in_def field_def loadConfig_def
      saveConfig_def Let_def)

section \<open>Adapter initialisation\<close>

lemma initialize_true_initialized:
  "initialize pf config p = (True, p') \<Longrightarrow> isInitialized p'"
  by (cases p)
     (auto simp: initialize_def openai_initialize_def gemini_initialize_def ollama_probe_def
        openai_isInitialized_def gemini_isInitialized_def ollama_isInitialized_def Let_def
        split: if_splits sum.splits prod.splits)

lemma offline_platform_sdk_total: "gemini_sdk_total offline_platform"
  by (simp add: gemini_sdk_total_def offline_platform_def)

text \<open>
  C10.  On a platform whose SDK constructors do not throw, \<open>initialize\<close> of the Gemini
  adapter answers \<open>true\<close> exactly when \<open>config.geminiApiKey\<close> is present and non-empty
  (truthy), \<open>isInitialized()\<close> is \<open>true\<close> afterwards in exactly that case, and the outcome
  is the same whatever the network probe \<open>probe\<close> would answer: \<open>initialize\<close> never
  consults it.
\<close>

theorem gemini_initialize_needs_only_key:
  assumes "gemini_sdk_total pf"
  shows "fst (gemini_initialize pf config GeminiProvider_new)
           = truthy (field config ''geminiApiKey'') \<and>
         gemini_isInitialized (snd (gemini_initialize pf config GeminiProvider_new))
           = truthy (field config ''geminiApiKey'') \<and>
         gemini_initialize (pf\<lparr>axios_get_tags := probe\<rparr>) config GeminiProvider_new
           = gemini_initialize pf config GeminiProvider_new"
proof -
  obtain g where g: "new_GoogleGenerativeAI pf (field config ''geminiApiKey'') = Inr g"
    using assms unfolding gemini_sdk_total_def by blast
  obtain c where c: "getGenerativeModel pf g (gemini_modelName config) = Inr c"
    using assms unfolding gemini_sdk_total_def by blast
  show ?thesis
    by (simp add: gemini_initialize_def gemini_isInitialized_def GeminiProvider_new_def g c Let_def)
qed

theorem gemini_initialize_needs_only_key_witness:
  "gemini_sdk_total offline_platform \<and>
   fst (gemini_initialize offline_platform gemini_config GeminiProvider_new) \<and>
   gemini_isInitialized (snd (gemini_initialize offline_platform gemini_config GeminiProvider_new)) \<and>
   \<not> fst (gemini_initialize offline_platform defaultConfig GeminiProvider_new)"
  using gemini_initialize_needs_only_key [OF offline_platform_sdk_total, of gemini_config]
    gemini_initialize_needs_only_key [OF offline_platform_sdk_total, of defaultConfig]
    offline_platform_sdk_total
  by (simp add: gemini_config_def defaultConfig_def spread_def field_def)

lemma initializeModelProvider_run:
  "initializeModelProvider pf config h =
     (case initialize pf config (new_provider config) of
        (ok, p') \<Rightarrow>
          \<lparr>adapters = adapters h @ [p'],
           modelProvider = (if ok then Some (length (adapters h)) else None)\<rparr>)"
proof -
  obtain pd p1 where s: "initialize_sync pf config (new_provider config) = (pd, p1)"
    by (cases "initialize_sync pf config (new_provider config)")
  obtain ok p' where r: "initialize_resume pf pd p1 = (ok, p')"
    by (cases "initialize_resume pf pd p1")
  have i: "initialize pf config (new_provider config) = (ok, p')"
    by (simp add: initialize_def s r)
  show ?thesis
    by (simp add: initializeModelProvider_def initializeModelProvider_begin_def
        initializeModelProvider_finish_def Let_def s r i)
qed

lemma initializeModelProvider_null_or_initialized:
  "modelProvider (initializeModelProvider pf config h) = None \<or>
   provider_ready (initializeModelProvider pf config h)"
proof (cases "initialize pf config (new_provider config)")
  case (Pair ok p')
  show ?thesis
  proof (cases ok)
    case True
    then have "isInitialized p'"
      using Pair initialize_true_initialized [of pf config "new_provider config" p'] by simp
    then show ?thesis using Pair True
      by (simp add: initializeModelProvider_run provider_ready_def visible_provider_def)
  next
    case False
    then show ?thesis using Pair by (simp add: initializeModelProvider_run)
  qed
qed

lemma helper_guard_ready:
  "fst (processScreenshotsHelper_guard pf config h)
     \<Longrightarrow> provider_ready (snd (processScreenshotsHelper_guard pf config h))"
  by (simp add: processScreenshotsHelper_guard_def Let_def split: if_splits)

text \<open>
  C9.  The processing helper has no adapter yet and the configuration is the default one:
  provider kind \<open>openai\<close>, empty credential.  The entry check of \<open>processScreenshots\<close>
  starts \<open>initializeModelProvider\<close> without awaiting it, finds the reference non-null
  and goes on, while the adapter the reference points to is not initialised.  The run
  it started stores \<open>null\<close> only later, and the entry check of
  \<open>processScreenshotsHelper\<close>, which awaits the run, refuses the same state.
\<close>

theorem uninitialized_provider_exposed:
  "fst (processScreenshots_guard offline_platform defaultConfig helper0) \<and>
   visible_provider (snd (processScreenshots_guard offline_platform defaultConfig helper0))
     = Some (OpenAI OpenAIProvider_new) \<and>
   \<not> isInitialized (OpenAI OpenAIProvider_new) \<and>
   modelProvider (initializeModelProvider offline_platform defaultConfig helper0) = None \<and>
   \<not> fst (processScreenshotsHelper_guard offline_platform defaultConfig helper0)"
  by (simp add: processScreenshots_guard_def initializeModelProvider_begin_def helper0_def
      new_provider_def defaultConfig_def field_def js_or_def openai_initialize_def
      openai_isInitialized_def OpenAIProvider_new_def visible_provider_def Let_def
      processScreenshotsHelper_guard_def provider_ready_def initializeModelProvider_def
      initializeModelProvider_finish_def)

section \<open>Translating a chat request\<close>

lemma split_from_nosep: "sep \<notin> set s \<Longrightarrow> split_from sep cur s = [rev cur @ s]"
  by (induction s arbitrary: cur) auto

lemma split_from_append:
  "sep \<notin> set a \<Longrightarrow> split_from sep cur (a @ sep # b) = (rev cur @ a) # split_from sep [] b"
  by (induction a arbitrary: cur) auto

lemma split_char_nosep: "sep \<notin> set s \<Longrightarrow> split_char sep s = [s]"
  by (simp add: split_char_def split_from_nosep)

lemma split_char_append:
  "sep \<notin> set a \<Longrightarrow> split_char sep (a @ sep # b) = a # split_char sep b"
  by (simp add: split_char_def split_from_append)

lemma base64_char_plain:
  "is_base64_char c \<Longrightarrow>
     c \<noteq> CHR '','' \<and> c \<noteq> CHR 0x0A \<and> c \<noteq> CHR 0x0D \<and> c \<noteq> CHR 0xE2"
  unfolding is_base64_char_def is_lower_def is_upper_def is_digit_def
  by (elim disjE) auto

lemma base64_no_comma: "is_base64 d \<Longrightarrow> CHR '','' \<notin> set d"
  using base64_char_plain by (induction d) (auto simp: is_base64_def)

lemma base64_not_terminator:
  "is_base64_char c \<Longrightarrow> \<not> at_line_terminator (c # cs)"
  using base64_char_plain [of c] by (simp add: at_line_terminator_def)

lemma base64_single_line: "is_base64 d \<Longrightarrow> single_line d"
  by (induction d) (simp_all add: single_line_def is_base64_def base64_not_terminator)

lemma second_piece_data_url:
  "is_base64 d \<Longrightarrow> second_piece (''data:image/png;base64,'' @ d) = Str d"
proof -
  assume "is_base64 d"
  then have n: "CHR '','' \<notin> set d" by (rule base64_no_comma)
  have "split_char (CHR '','') (''data:image/png;base64'' @ CHR '','' # d)
          = ''data:image/png;base64'' # split_char (CHR '','') d"
    by (rule split_char_append) simp
  then have "split_char (CHR '','') (''data:image/png;base64,'' @ d) = [''data:image/png;base64'', d]"
    using split_char_nosep [OF n] by simp
  then show ?thesis
    by (simp only: second_piece_def list.case)
qed

lemma match_data_url_png:
  "d \<noteq> [] \<Longrightarrow> single_line d \<Longrightarrow> match_data_url (''data:image/png;base64,'' @ d) = Some d"
  by (simp add: match_data_url_def strip_prefix_def is_lower_def)

lemma collect_image_url:
  "d \<noteq> [] \<Longrightarrow> single_line d \<Longrightarrow>
     collect_parts (image_url d # ps) (t, imgs) = collect_parts ps (t, imgs @ [d])"
  unfolding image_url_def
  by (subst collect_parts.simps, subst match_data_url_png) simp_all

lemma collect_parts_images:
  "list_all (\<lambda>d. d \<noteq> [] \<and> single_line d) ds \<Longrightarrow>
     collect_parts (map image_url ds) (t, imgs) = (t, imgs @ ds)"
  by (induction ds arbitrary: imgs) (simp_all add: collect_image_url)

lemma base64_list_single_line:
  "list_all (\<lambda>d. d \<noteq> [] \<and> is_base64 d) ds \<Longrightarrow> list_all (\<lambda>d. d \<noteq> [] \<and> single_line d) ds"
  by (induction ds) (simp_all add: base64_single_line)

lemma ollama_user_parts_stage:
  "list_all (\<lambda>d. d \<noteq> [] \<and> is_base64 d) ds \<Longrightarrow>
     ollama_user_parts (stage_messages sys t ds) = (t, ds)"
  using collect_parts_images [OF base64_list_single_line, of ds t "[]"]
  by (simp add: ollama_user_parts_def ollama_userMessage_def stage_messages_def)





lemma gemini_item_image_url:
  "is_base64 d \<Longrightarrow> gemini_item (image_url d) = [GInline (Str d) ''image/png'']"
  unfolding image_url_def
  by (subst gemini_item.simps, subst second_piece_data_url) simp_all

lemma gemini_items_images:
  "list_all (\<lambda>d. d \<noteq> [] \<and> is_base64 d) ds \<Longrightarrow>
     concat (map gemini_item (map image_url ds)) = map (\<lambda>d. GInline (Str d) ''image/png'') ds"
  by (induction ds) (simp_all add: gemini_item_image_url)

lemma geminiParts_stage:
  "list_all (\<lambda>d. d \<noteq> [] \<and> is_base64 d) ds \<Longrightarrow>
     geminiParts (stage_messages sys t ds)
       = GText (''System instruction: '' @ sys) # GText t
           # map (\<lambda>d. GInline (Str d) ''image/png'') ds"
  using gemini_items_images [of ds]
  by (simp add: geminiParts_def gemini_message_def stage_messages_def content_toString_def)

lemma ollama_finalPrompt_stage:
  "list_all (\<lambda>d. d \<noteq> [] \<and> is_base64 d) ds \<Longrightarrow>
     ollama_finalPrompt (stage_messages sys t ds)
       = (if sys = [] then t else sys @ [CHR 0x0A, CHR 0x0A] @ t)"
  using ollama_user_parts_stage [of ds sys t]
  by (simp add: ollama_finalPrompt_def Let_def)
     (simp add: ollama_systemPrompt_def stage_messages_def content_truthy_def content_toString_def)

text \<open>
  C2 as stated fails.  For the extraction request with one screenshot, the Gemini request
  has the single role \<open>user\<close> where the chat request has \<open>system\<close> and \<open>user\<close>,
  and its first text is the system text behind the prefix \<open>System instruction: \<close>; the
  Ollama request has one prompt in which the two texts are run together.
\<close>

theorem translation_loses_roles_and_segments:
  "gemini_roles (gemini_request_of (demo_options [''QUJD'']))
     \<noteq> request_roles (messages (demo_options [''QUJD''])) \<and>
   gemini_texts (gemini_request_of (demo_options [''QUJD'']))
     \<noteq> request_texts (messages (demo_options [''QUJD''])) \<and>
   [req_prompt (ollama_first_request id (demo_options [''QUJD'']))]
     \<noteq> request_texts (messages (demo_options [''QUJD'']))"
  by (simp add: gemini_roles_def gemini_texts_def gemini_request_of_def request_roles_def
      request_texts_def message_texts_def demo_options_def stage_messages_def geminiParts_def
      gemini_message_def content_toString_def ollama_first_request_def ollama_request_of_def)

lemma solution_translation:
  "messages options = solution_messages sys promptText \<Longrightarrow>
     contents (gemini_request_of options)
       = [\<lparr>g_role = ''user'',
           g_parts = [GText (''System instruction: '' @ sys), GText promptText]\<rparr>] \<and>
     req_prompt (ollama_first_request resize options)
       = (if sys = [] then promptText else sys @ [CHR 0x0A, CHR 0x0A] @ promptText) \<and>
     req_images (ollama_first_request resize options) = None"
  by (simp add: gemini_request_of_def geminiParts_def gemini_message_def solution_messages_def
      content_toString_def ollama_first_request_def ollama_request_of_def ollama_images_def
      ollama_user_parts_def ollama_userMessage_def ollama_finalPrompt_def
      ollama_systemPrompt_def content_truthy_def Let_def)

lemma stage_translation:
  assumes "list_all (\<lambda>d. d \<noteq> [] \<and> is_base64 d) ds"
    and "messages options = stage_messages sys t ds"
  shows "contents (gemini_request_of options)
           = [\<lparr>g_role = ''user'',
               g_parts = GText (''System instruction: '' @ sys) # GText t
                           # map (\<lambda>d. GInline (Str d) ''image/png'') ds\<rparr>] \<and>
         req_prompt (ollama_first_request resize options)
           = (if sys = [] then t else sys @ [CHR 0x0A, CHR 0x0A] @ t) \<and>
         req_images (ollama_first_request resize options)
           = (if ds = [] then None else Some (map resize ds))"
  using assms geminiParts_stage [OF assms(1), of sys t] ollama_finalPrompt_stage [OF assms(1), of sys t]
    ollama_user_parts_stage [OF assms(1), of sys t]
  by (auto simp: gemini_request_of_def ollama_first_request_def ollama_request_of_def
        ollama_images_def Let_def)

text \<open>
  C2, amended.  For the request a stage builds, each adapter's backend request is fixed
  as follows.  From the system text \<open>sys\<close>, the user text \<open>t\<close> and the base64 texts
  \<open>ds\<close> of the screenshots (each non-empty and over the base64 alphabet), Gemini gets
  one content of role \<open>user\<close> whose parts are, in order, \<open>System instruction: \<close>
  followed by \<open>sys\<close>, then \<open>t\<close> unchanged, then one inline part per screenshot
  holding its base64 text unchanged; Ollama gets the prompt \<open>sys\<close>, an empty line,
  \<open>t\<close>, and the resized base64 texts in order as its images.  From the two plain texts
  of the solution stage Gemini gets the prefixed system text and the prompt, Ollama the
  joined prompt and no images.  An initialised OpenAI adapter hands the options to the SDK
  unchanged.
\<close>

theorem stage_request_translation:
  "(list_all (\<lambda>d. d \<noteq> [] \<and> is_base64 d) ds \<and>
    messages options = stage_messages sys t ds \<longrightarrow>
      contents (gemini_request_of options)
        = [\<lparr>g_role = ''user'',
            g_parts = GText (''System instruction: '' @ sys) # GText t
                        # map (\<lambda>d. GInline (Str d) ''image/png'') ds\<rparr>] \<and>
      req_prompt (ollama_first_request resize options)
        = (if sys = [] then t else sys @ [CHR 0x0A, CHR 0x0A] @ t) \<and>
      req_images (ollama_first_request resize options)
        = (if ds = [] then None else Some (map resize ds))) \<and>
   (messages options = solution_messages sys promptText \<longrightarrow>
      contents (gemini_request_of options)
        = [\<lparr>g_role = ''user'',
            g_parts = [GText (''System instruction: '' @ sys), GText promptText]\<rparr>] \<and>
      req_prompt (ollama_first_request resize options)
        = (if sys = [] then promptText else sys @ [CHR 0x0A, CHR 0x0A] @ promptText) \<and>
      req_images (ollama_first_request resize options) = None) \<and>
   (openai_client p \<noteq> None \<longrightarrow> openai_create sdk_create p options = sdk_create options)"
  using stage_translation [of ds options sys t resize]
    solution_translation [of options sys promptText resize]
  by (auto simp: openai_create_def)

lemma demo_base64: "list_all (\<lambda>d. d \<noteq> [] \<and> is_base64 d) [''QUJD'']"
  by (simp add: is_base64_def is_base64_char_def is_lower_def is_upper_def is_digit_def)

theorem stage_request_translation_witness:
  "list_all (\<lambda>d. d \<noteq> [] \<and> is_base64 d) [''QUJD''] \<and>
   g_parts (hd (contents (gemini_request_of (demo_options [''QUJD'']))))
     = [GText ''System instruction: Return JSON.'', GText ''Extract the problem.'',
        GInline (Str ''QUJD'') ''image/png''] \<and>
   req_images (ollama_first_request id (demo_options [''QUJD''])) = Some [''QUJD''] \<and>
   req_images (ollama_first_request id demo_solution_options) = None \<and>
   openai_client ready_openai \<noteq> None \<and>
   openai_create (\<lambda>opts. Inr ''ok'') ready_openai (demo_options [''QUJD'']) = Inr ''ok''"
  using stage_request_translation [of "[''QUJD'']" "demo_options [''QUJD'']" "''Return JSON.''"
      "''Extract the problem.''" id "''Solve it.''" ready_openai "\<lambda>opts. Inr ''ok''"]
    stage_request_translation [of "[]" demo_solution_options "''You are an assistant.''"
      "''Extract the problem.''" id "''Solve it.''" ready_openai "\<lambda>opts. Inr ''ok''"]
    demo_base64
  by (simp add: demo_options_def demo_solution_options_def ready_openai_def)

section \<open>Extraction stage: the selected candidate\<close>

lemma truthy_text: "text_or_missing v \<Longrightarrow> truthy v = nonempty_text v"
  by (cases v) simp_all

lemma has_constraints_items:
  "items_or_missing c \<Longrightarrow> has_constraints coerce c = Inr (nonempty_items c)"
  by (cases c) (simp_all add: has_constraints_def)

lemma get_prop_fld: "get_prop (Obj kvs) k = Inr (fld (Obj kvs) k)"
  by (simp add: fld_def)

lemma isComplete_candidate:
  assumes "is_candidate p"
  shows "isComplete coerce p = Inr (spec_complete p)"
proof -
  obtain kvs where p: "p = Obj kvs" using assms by (cases p) simp_all
  have t: "text_or_missing (fld p ''problem_statement'')"
      "items_or_missing (fld p ''constraints'')"
      "text_or_missing (fld p ''example_input'')"
      "text_or_missing (fld p ''example_output'')"
    using assms unfolding p by simp_all
  show ?thesis
    unfolding isComplete_def spec_complete_def p get_prop_fld
    using t unfolding p
    by (auto simp: truthy_text has_constraints_items split: bool.splits)
qed

lemma find_complete_candidates:
  "list_all is_candidate xs \<Longrightarrow> find_complete coerce xs = Inr (find spec_complete xs)"
  by (induction xs) (simp_all add: isComplete_candidate)

lemma candidate_truthy: "is_candidate p \<Longrightarrow> truthy p"
  by (cases p) simp_all

lemma find_candidate: "list_all is_candidate xs \<Longrightarrow> find P xs = Some p \<Longrightarrow> is_candidate p"
  by (induction xs) (auto split: if_splits)

lemma select_problem_candidates:
  assumes c: "list_all is_candidate xs"
  shows "select_problem coerce (Arr xs) = Inr (spec_selected xs)"
proof (cases "find spec_complete xs")
  case None
  then show ?thesis using c by (simp add: find_complete_candidates spec_selected_def)
next
  case (Some p)
  then have "truthy p" using c find_candidate candidate_truthy by blast
  then show ?thesis using c Some
    by (simp add: find_complete_candidates spec_selected_def js_or_def)
qed

lemma has_constraints_plain:
  "\<not> is_object c \<Longrightarrow> has_constraints coerce c = Inr (truthy c \<and> positive_length c)"
  by (cases c) (simp_all add: has_constraints_def)

lemma isComplete_plain:
  assumes "plain_element p"
  shows "isComplete coerce p = Inr (js_complete p)"
proof (cases "is_object p")
  case True
  then obtain kvs where p: "p = Obj kvs" by (cases p) simp_all
  have c: "\<not> is_object (fld (Obj kvs) ''constraints'')"
    using assms unfolding plain_element_def p by simp
  show ?thesis
    unfolding isComplete_def js_complete_def p get_prop_fld
    by (auto simp: has_constraints_plain [OF c] split: bool.splits)
next
  case False
  then have "get_prop p ''problem_statement'' = Inr Undefined"
    using assms unfolding plain_element_def by (cases p) simp_all
  then show ?thesis by (simp add: isComplete_def js_complete_def fld_def)
qed

lemma find_complete_plain:
  "list_all plain_element xs \<Longrightarrow> find_complete coerce xs = Inr (find js_complete xs)"
  by (induction xs) (simp_all add: isComplete_plain)

lemma js_complete_truthy: "js_complete p \<Longrightarrow> truthy p"
  by (cases p) (simp_all add: js_complete_def fld_def)

lemma find_holds: "find P xs = Some p \<Longrightarrow> P p"
  by (induction xs) (auto split: if_splits)

lemma select_problem_plain:
  assumes c: "list_all plain_element xs"
  shows "select_problem coerce (Arr xs)
           = Inr (case find js_complete xs of Some p \<Rightarrow> p | None \<Rightarrow> first_element xs)"
proof (cases "find js_complete xs")
  case None
  then show ?thesis using c by (simp add: find_complete_plain)
next
  case (Some p)
  then have "js_complete p" by (rule find_holds)
  then have "truthy p" by (rule js_complete_truthy)
  then show ?thesis using c Some by (simp add: find_complete_plain js_or_def)
qed

lemma jsonText_B: "jsonText_of scenario_B_text = scenario_B_text"
  by code_simp

lemma scenario_B_selected:
  "json_path demo_parse no_coerce scenario_B_text = Inr two_sum"
proof -
  have "demo_parse (jsonText_of scenario_B_text) = Inr (Arr scenario_B)"
    by (simp add: jsonText_B demo_parse_def)
  moreover have "select_problem no_coerce (Arr scenario_B) = Inr two_sum"
    by code_simp
  ultimately show ?thesis by (simp add: json_path_def del: select_problem.simps)
qed

text \<open>
  C1.  Two responses on which the stage does not do what the claim says.  The first is
  a single well-formed JSON object in which \<open>}\<close> is followed by \<open>{\<close> inside two
  texts: the repair meant for several objects in a row wraps it in brackets and puts a
  comma between the two braces, so what is parsed is an array, and the object selected
  from it has a changed \<open>problem_statement\<close> and a changed \<open>example_input\<close>.  The
  second is the array \<open>[null]\<close>: the callback of \<open>find\<close> reads \<open>problem_statement\<close>
  of \<open>null\<close> and throws, so no element is selected, the first one included; the same
  happens when a complete candidate follows the \<open>null\<close>.
\<close>

theorem single_object_rewritten:
  "JSON_parse_demo balanced_text = Inr balanced_object \<and>
   jsonText_of balanced_text = balanced_rewritten \<and>
   json_path JSON_parse_demo no_coerce balanced_text = Inr balanced_changed \<and>
   balanced_changed \<noteq> balanced_object \<and>
   json_path JSON_parse_demo no_coerce ''[null]'' = Inl TypeError \<and>
   select_problem no_coerce (Arr [Null, two_sum]) = Inl TypeError"
proof -
  have t: "jsonText_of balanced_text = balanced_rewritten" by code_simp
  have n: "jsonText_of ''[null]'' = ''[null]''" by code_simp
  have d: "balanced_rewritten \<noteq> balanced_text" "''[null]'' \<noteq> balanced_text"
    "''[null]'' \<noteq> balanced_rewritten" "''[null]'' \<noteq> scenario_B_text"
    by code_simp+
  have s: "select_problem no_coerce (Arr [balanced_changed]) = Inr balanced_changed"
    "select_problem no_coerce (Arr [Null]) = Inl TypeError"
    "select_problem no_coerce (Arr [Null, two_sum]) = Inl TypeError"
    by code_simp+
  have c: "balanced_changed \<noteq> balanced_object" by code_simp
  have p1: "JSON_parse_demo balanced_text = Inr balanced_object"
    by (simp add: JSON_parse_demo_def)
  have p2: "JSON_parse_demo balanced_rewritten = Inr (Arr [balanced_changed])"
    using d(1) by (simp add: JSON_parse_demo_def)
  have p3: "JSON_parse_demo ''[null]'' = Inr (Arr [Null])"
    using d(2,3,4) by (simp add: JSON_parse_demo_def demo_parse_def)
  have j1: "json_path JSON_parse_demo no_coerce balanced_text = Inr balanced_changed"
    unfolding json_path_def t p2 using s(1) by (simp del: select_problem.simps)
  have j2: "json_path JSON_parse_demo no_coerce ''[null]'' = Inl TypeError"
    unfolding json_path_def n p3 using s(2) by (simp del: select_problem.simps)
  show ?thesis
    by (intro conjI) (rule p1, rule t, rule j1, rule c, rule j2, rule s(3))
qed

section \<open>Solution stage: complexity fields\<close>

lemma notation_at_shape:
  "notation_at s = Some n \<Longrightarrow>
     \<exists>c body. n = c # CHR ''('' # body @ '')'' \<and> (c = CHR ''O'' \<or> c = CHR ''o'') \<and>
        body \<noteq> [] \<and> list_all not_close body"
proof (cases s rule: notation_at.cases)
  case (1 c p rest)
  assume a: "notation_at s = Some n"
  have "list_all not_close (takeWhile not_close rest)"
    by (simp add: list_all_iff) (meson set_takeWhileD)
  then show ?thesis using a 1 by (auto split: if_splits)
qed simp_all

lemma takeWhile_body:
  "list_all not_close body \<Longrightarrow> takeWhile not_close (body @ CHR '')'' # u) = body"
  by (induction body) (simp_all add: not_close_def)

lemma dropWhile_body:
  "list_all not_close body \<Longrightarrow> dropWhile not_close (body @ CHR '')'' # u) = CHR '')'' # u"
  by (induction body) (simp_all add: not_close_def)

lemma notation_at_extend:
  assumes "notation_at s = Some n"
  shows "notation_at (n @ u) = Some n"
proof -
  obtain c body where n: "n = c # CHR ''('' # body @ '')''" "c = CHR ''O'' \<or> c = CHR ''o''"
      "body \<noteq> []" "list_all not_close body"
    using notation_at_shape [OF assms] by blast
  show ?thesis
    using n(2,3) by (simp add: n(1) takeWhile_body [OF n(4)] dropWhile_body [OF n(4)])
qed

lemma find_notation_sound:
  "find_notation t = Some n \<Longrightarrow> \<exists>s. notation_at s = Some n"
  by (induction t) (auto split: option.splits)

lemma has_notation_extend:
  "find_notation t = Some n \<Longrightarrow> has_notation (n @ u)"
proof -
  assume "find_notation t = Some n"
  then obtain s where "notation_at s = Some n" using find_notation_sound by blast
  then have a: "notation_at (n @ u) = Some n" by (rule notation_at_extend)
  then have "n @ u \<noteq> []" by auto
  then obtain c cs where "n @ u = c # cs" by (cases "n @ u") auto
  then show ?thesis using a by (simp add: has_notation_def)
qed

lemma has_notation_prefixed: "has_notation (''O(n) - '' @ t)"
  by (simp add: has_notation_def not_close_def)

lemma has_notation_nonempty: "has_notation t \<Longrightarrow> t \<noteq> []"
  by (auto simp: has_notation_def)

lemma with_notation_ok: "has_notation (with_notation t)"
proof (cases "find_notation t")
  case None
  then show ?thesis by (simp add: with_notation_def has_notation_prefixed del: append.simps)
next
  case (Some n)
  then show ?thesis
    using has_notation_extend [OF Some]
    by (simp add: with_notation_def) (simp add: has_notation_def)
qed

lemma defaults_ok: "has_notation default_time" "has_notation default_space"
  by code_simp+

lemma complexity_field_ok:
  "has_notation dflt \<Longrightarrow> has_notation (complexity_field dflt m)"
  by (cases m) (simp_all add: complexity_field_def with_notation_ok)

lemma extend_group_nonempty:
  "extend_group tm g ls = Some g' \<Longrightarrow> g \<noteq> [] \<Longrightarrow> g' \<noteq> []"
  by (induction ls arbitrary: g) (auto split: if_splits)

lemma group_from_nonempty: "group_from tm p = Some g \<Longrightarrow> g \<noteq> []"
  by (auto simp: group_from_def split: list.splits if_splits dest: extend_group_nonempty)

lemma after_spaces_nonempty: "after_spaces tm k r = Some g \<Longrightarrow> g \<noteq> []"
  by (induction k) (auto split: option.splits dest: group_from_nonempty)

lemma after_colon_nonempty: "after_colon tm r = Some g \<Longrightarrow> g \<noteq> []"
  unfolding after_colon_def by (rule after_spaces_nonempty)

lemma after_heading_nonempty: "after_heading tm r = Some g \<Longrightarrow> g \<noteq> []"
  unfolding after_heading_def
  by (auto split: list.splits if_splits option.splits dest: after_colon_nonempty)

lemma match_heading_nonempty: "match_heading h tm s = Some g \<Longrightarrow> g \<noteq> []"
  by (induction s) (auto split: if_splits option.splits dest: after_heading_nonempty)

text \<open>
  What the stage achieves in terms of its own test: a captured text that fails the test
  is put behind the prefix \<open>O(n) - \<close>, and both fields of every result are non-empty
  and pass the test.
\<close>

lemma complexity_fields_pass_stage_test:
  "(timeMatch r = Some g \<and> \<not> has_notation (trim g) \<longrightarrow>
      time_complexity (parse_solution r) = ''O(n) - '' @ trim g) \<and>
   (spaceMatch r = Some g' \<and> \<not> has_notation (trim g') \<longrightarrow>
      space_complexity (parse_solution r) = ''O(n) - '' @ trim g') \<and>
   time_complexity (parse_solution r) \<noteq> [] \<and>
   has_notation (time_complexity (parse_solution r)) \<and>
   space_complexity (parse_solution r) \<noteq> [] \<and>
   has_notation (space_complexity (parse_solution r))"
proof -
  have t: "has_notation (time_complexity (parse_solution r))"
    and s: "has_notation (space_complexity (parse_solution r))"
    by (simp_all add: parse_solution_def complexity_field_ok defaults_ok)
  have 1: "time_complexity (parse_solution r) = ''O(n) - '' @ trim g"
    if "timeMatch r = Some g" "\<not> has_notation (trim g)"
    using that match_heading_nonempty [of "''time complexity''" time_terminator r g]
    by (simp add: parse_solution_def complexity_field_def with_notation_def has_notation_def
        timeMatch_def del: append.simps)
  have 2: "space_complexity (parse_solution r) = ''O(n) - '' @ trim g'"
    if "spaceMatch r = Some g'" "\<not> has_notation (trim g')"
    using that match_heading_nonempty [of "''space complexity''" space_terminator r g']
    by (simp add: parse_solution_def complexity_field_def with_notation_def has_notation_def
        spaceMatch_def del: append.simps)
  show ?thesis using t s 1 2 has_notation_nonempty by blast
qed

lemma plain_time: "timeMatch plain_complexities = Some ''linear in n''"
  by code_simp

lemma plain_space: "spaceMatch plain_complexities = Some ''constant''"
  by code_simp

lemma plain_trimmed:
  "trim ''linear in n'' = ''linear in n''" "trim ''constant'' = ''constant''"
  "\<not> has_notation ''linear in n''" "\<not> has_notation ''constant''"
  by code_simp+

lemma plain_complexities_prefixed:
  "time_complexity (parse_solution plain_complexities) = ''O(n) - linear in n'' \<and>
   space_complexity (parse_solution plain_complexities) = ''O(n) - constant''"
  using complexity_fields_pass_stage_test [of plain_complexities "''linear in n''" "''constant''"]
    plain_time plain_space plain_trimmed
  by simp

text \<open>The prefix and the two defaults are Big-O notation.\<close>

lemma big_O_prefixed: "big_O (''O(n) - '' @ t)"
  by simp

lemma defaults_big_O: "big_O default_time" "big_O default_space"
  by code_simp+

text \<open>Big-O notation needs the capital letter.\<close>

lemma big_O_capital: "big_O t \<Longrightarrow> CHR ''O'' \<in> set t"
  by (induction t rule: big_O.induct) auto

text \<open>
  C7.  A response whose complexity lines read \<open>also(known) fast\<close> and
  \<open>halo(ring) size\<close>.  Neither captured text contains Big-O notation, yet neither
  field is the text behind the prefix \<open>O(n) - \<close>: the test for the notation ignores case
  and finds \<open>o(known)\<close> and \<open>o(ring)\<close> at the end of a word, so the stage cuts them
  out of the words and puts them in front.  Neither field of the result contains Big-O
  notation.
\<close>

theorem lower_case_o_taken_for_notation:
  "timeMatch lower_case_o = Some ''also(known) fast'' \<and>
   spaceMatch lower_case_o = Some ''halo(ring) size'' \<and>
   \<not> big_O (trim ''also(known) fast'') \<and>
   \<not> big_O (trim ''halo(ring) size'') \<and>
   time_complexity (parse_solution lower_case_o) = ''o(known) - als fast'' \<and>
   space_complexity (parse_solution lower_case_o) = ''o(ring) - hal size'' \<and>
   \<not> big_O (time_complexity (parse_solution lower_case_o)) \<and>
   \<not> big_O (space_complexity (parse_solution lower_case_o))"
proof -
  have t: "timeMatch lower_case_o = Some ''also(known) fast''" by code_simp
  have s: "spaceMatch lower_case_o = Some ''halo(ring) size''" by code_simp
  have n: "\<not> big_O (trim ''also(known) fast'')" "\<not> big_O (trim ''halo(ring) size'')"
    by code_simp+
  have ft: "time_complexity (parse_solution lower_case_o) = ''o(known) - als fast''"
    by code_simp
  have fs: "space_complexity (parse_solution lower_case_o) = ''o(ring) - hal size''"
    by code_simp
  have bt: "\<not> big_O (time_complexity (parse_solution lower_case_o))"
    unfolding ft by code_simp
  have bs: "\<not> big_O (space_complexity (parse_solution lower_case_o))"
    unfolding fs by code_simp
  show ?thesis
    by (intro conjI) (rule t, rule s, rule n(1), rule n(2), rule ft, rule fs, rule bt, rule bs)
qed

section \<open>Solution stage: the code field\<close>

lemma startsWith_iff: "startsWith s p \<longleftrightarrow> (\<exists>t. s = p @ t)"
  by (induction s p rule: startsWith.induct) auto

lemma find_sub_sound: "find_sub pat s = Some (a, b) \<Longrightarrow> s = a @ pat @ b"
proof (induction s arbitrary: a)
  case Nil
  then show ?case by (simp split: if_splits)
next
  case (Cons c cs)
  show ?case
  proof (cases "startsWith (c # cs) pat")
    case True
    then obtain t where t: "c # cs = pat @ t" using startsWith_iff by blast
    have "a = []" "b = drop (length pat) (c # cs)" using True Cons.prems by simp_all
    then show ?thesis using t by simp
  next
    case False
    then obtain a' where "find_sub pat cs = Some (a', b)" "a = c # a'"
      using Cons.prems by auto
    then show ?thesis using Cons.IH by simp
  qed
qed

lemma find_sub_least:
  "find_sub pat s = Some (a, b) \<Longrightarrow> s = a' @ pat @ b' \<Longrightarrow> length a \<le> length a'"
proof (induction s arbitrary: a a')
  case Nil
  then show ?case by (simp split: if_splits)
next
  case (Cons c cs)
  show ?case
  proof (cases "startsWith (c # cs) pat")
    case True
    then have "a = []" using Cons.prems(1) by simp
    then show ?thesis by simp
  next
    case False
    then obtain a0 where a0: "find_sub pat cs = Some (a0, b)" "a = c # a0"
      using Cons.prems(1) by auto
    have "a' \<noteq> []" using False Cons.prems(2) startsWith_iff by fastforce
    then obtain a1 where a1: "a' = c # a1" "cs = a1 @ pat @ b'"
      using Cons.prems(2) by (cases a') auto
    show ?thesis using Cons.IH [OF a0(1) a1(2)] a0(2) a1(1) by simp
  qed
qed

lemma find_sub_complete: "s = a' @ pat @ b' \<Longrightarrow> find_sub pat s \<noteq> None"
proof (induction a' arbitrary: s)
  case Nil
  then have "startsWith s pat" using startsWith_iff by auto
  then show ?case by (cases s) (auto simp: Nil)
next
  case (Cons c a')
  then show ?case by auto
qed

lemma leftmost_unique:
  "leftmost pat s a b \<Longrightarrow> leftmost pat s a' b' \<Longrightarrow> a = a' \<and> b = b'"
proof -
  assume 1: "leftmost pat s a b" and 2: "leftmost pat s a' b'"
  have e: "a @ pat @ b = a' @ pat @ b'" using 1 2 unfolding leftmost_def by simp
  have "length a \<le> length a'" using 1 2 unfolding leftmost_def by blast
  moreover have "length a' \<le> length a" using 1 2 unfolding leftmost_def by blast
  ultimately have "length a = length a'" by simp
  then show ?thesis using e by simp
qed

lemma find_sub_leftmost: "find_sub pat s = Some (a, b) \<longleftrightarrow> leftmost pat s a b"
proof
  assume "find_sub pat s = Some (a, b)"
  then show "leftmost pat s a b"
    unfolding leftmost_def using find_sub_sound find_sub_least by blast
next
  assume l: "leftmost pat s a b"
  then have "find_sub pat s \<noteq> None" unfolding leftmost_def using find_sub_complete by blast
  then obtain a' b' where f: "find_sub pat s = Some (a', b')" by auto
  then have "leftmost pat s a' b'"
    unfolding leftmost_def using find_sub_sound find_sub_least by blast
  then show "find_sub pat s = Some (a, b)" using l f leftmost_unique by blast
qed

lemma find_fence_skip:
  "c \<noteq> CHR ''`'' \<Longrightarrow>
     find_sub fence (c # cs) = map_option (\<lambda>(a, b). (c # a, b)) (find_sub fence cs)"
  by (simp add: fence_def)

lemma find_fence_dropWhile:
  assumes P: "\<And>c. P c \<Longrightarrow> c \<noteq> CHR ''`''"
  shows "find_sub fence (dropWhile P r)
           = map_option (\<lambda>(a, b). (dropWhile P a, b)) (find_sub fence r)"
proof (induction r)
  case Nil
  then show ?case by (simp add: fence_def)
next
  case (Cons c cs)
  show ?case
  proof (cases "P c")
    case True
    then have "c \<noteq> CHR ''`''" using P by blast
    then have "find_sub fence (c # cs) = map_option (\<lambda>(a, b). (c # a, b)) (find_sub fence cs)"
      by (rule find_fence_skip)
    then show ?thesis using True Cons.IH
      by (cases "find_sub fence cs") (auto simp del: find_sub.simps)
  next
    case False
    then show ?thesis
      by (cases "startsWith (c # cs) fence"; cases "find_sub fence cs") auto
  qed
qed

lemma word_not_tick: "is_word c \<Longrightarrow> c \<noteq> CHR ''`''"
  unfolding is_word_def is_lower_def is_upper_def is_digit_def by (elim disjE) auto

lemma space_not_tick: "is_space c \<Longrightarrow> c \<noteq> CHR ''`''"
  unfolding is_space_def by auto

lemma codeMatch_fences:
  "codeMatch s =
     (case find_sub fence s of
        None \<Rightarrow> None
      | Some (lead, r) \<Rightarrow>
          map_option (\<lambda>(inner, after). dropWhile is_space (dropWhile is_word inner))
            (find_sub fence r))"
  unfolding codeMatch_def
  by (simp add: find_fence_dropWhile [of is_space, OF space_not_tick]
        find_fence_dropWhile [of is_word, OF word_not_tick] option.map_comp comp_def
        split: option.splits prod.splits)

lemma trim_dropWhile_space: "trim (dropWhile is_space t) = trim t"
  by (simp add: trim_def trimStart_def)

text \<open>
  What the pattern captures: when the response has a first fenced code block, the code
  field is what stands between the two fences without its leading run of word characters,
  trimmed; when it has none, the code field is the whole response.
\<close>

lemma code_between_fences:
  "(first_block s inner \<longrightarrow> code (parse_solution s) = trim (dropWhile is_word inner)) \<and>
   ((\<nexists>inner. first_block s inner) \<longrightarrow> code (parse_solution s) = s)"
proof (intro conjI impI)
  assume "first_block s inner"
  then obtain lead r after where
    "find_sub fence s = Some (lead, r)" "find_sub fence r = Some (inner, after)"
    unfolding first_block_def find_sub_leftmost by blast
  then show "code (parse_solution s) = trim (dropWhile is_word inner)"
    by (simp add: parse_solution_def solution_code_def codeMatch_fences trim_dropWhile_space)
next
  assume n: "\<nexists>inner. first_block s inner"
  have "codeMatch s = None"
  proof (cases "find_sub fence s")
    case None
    then show ?thesis by (simp add: codeMatch_fences)
  next
    case (Some br)
    obtain lead r where br: "br = (lead, r)" by (cases br)
    have "find_sub fence r = None"
    proof (rule ccontr)
      assume "find_sub fence r \<noteq> None"
      then obtain inner after where "find_sub fence r = Some (inner, after)" by auto
      then have "first_block s inner"
        unfolding first_block_def using Some br find_sub_leftmost by blast
      then show False using n by blast
    qed
    then show ?thesis using Some br by (simp add: codeMatch_fences)
  qed
  then show "code (parse_solution s) = s" by (simp add: parse_solution_def solution_code_def)
qed

text \<open>
  When the line of the opening fence holds nothing but word characters after the fence,
  a language tag such as \<open>python\<close> or none at all, the code field is the trimmed contents
  of the block.
\<close>

lemma word_not_lf: "is_word c \<Longrightarrow> not_lf c"
  unfolding is_word_def is_lower_def is_upper_def is_digit_def not_lf_def
  by (elim disjE) auto

lemma trim_below: "trim (CHR 0x0A # body) = trim body"
proof -
  have "dropWhile is_space (CHR 0x0A # body) = dropWhile is_space body"
    by (simp add: is_space_def)
  then show ?thesis using trim_dropWhile_space by metis
qed

lemma word_tag_block:
  assumes b: "first_block s (tag @ CHR 0x0A # body)" and w: "list_all is_word tag"
  shows "code (parse_solution s) = trim (block_contents (tag @ CHR 0x0A # body))"
proof -
  have nw: "\<not> is_word (CHR 0x0A)"
    by (simp add: is_word_def is_lower_def is_upper_def is_digit_def)
  have 1: "dropWhile is_word (tag @ CHR 0x0A # body) = CHR 0x0A # body"
    using w nw by (induction tag) simp_all
  have 2: "dropWhile not_lf (tag @ CHR 0x0A # body) = CHR 0x0A # body"
    using w word_not_lf by (induction tag) (auto simp: not_lf_def)
  have "code (parse_solution s) = trim (dropWhile is_word (tag @ CHR 0x0A # body))"
    using b code_between_fences by blast
  then show ?thesis by (simp only: 1 2 block_contents_def trim_below list.case)
qed

lemma fenced_first_block: "first_block fenced_response fenced_inner"
proof -
  have 1: "find_sub fence fenced_response
             = Some (''Here is the code:'' @ [CHR 0x0A], fenced_inner @ ''```'' @ [CHR 0x0A] @ ''Done.'')"
    by code_simp
  have 2: "find_sub fence (fenced_inner @ ''```'' @ [CHR 0x0A] @ ''Done.'')
             = Some (fenced_inner, [CHR 0x0A] @ ''Done.'')"
    by code_simp
  show ?thesis unfolding first_block_def using 1 2 find_sub_leftmost by blast
qed

lemma no_fence_no_block: "\<nexists>inner. first_block ''print(1)'' inner"
proof -
  have "find_sub fence ''print(1)'' = None" by code_simp
  then show ?thesis unfolding first_block_def using find_sub_leftmost
    by (metis option.distinct(1))
qed

lemma fenced_response_code:
  "code (parse_solution fenced_response) = ''print(1)'' \<and>
   code (parse_solution ''print(1)'') = ''print(1)''"
proof -
  have i: "fenced_inner = ''python'' @ CHR 0x0A # (''print(1)'' @ [CHR 0x0A])"
    by (simp add: fenced_inner_def)
  have w: "list_all is_word ''python''" by code_simp
  have t: "trim (block_contents fenced_inner) = ''print(1)''" by code_simp
  have "code (parse_solution fenced_response) = trim (block_contents fenced_inner)"
    unfolding i using fenced_first_block w unfolding i by (rule word_tag_block)
  then show ?thesis
    using t code_between_fences [of "''print(1)''" "[]"] no_fence_no_block by simp
qed

lemma cpp_first_block: "first_block cpp_response cpp_inner"
proof -
  have 1: "find_sub fence cpp_response = Some ([], cpp_inner @ ''```'')"
    by code_simp
  have 2: "find_sub fence (cpp_inner @ ''```'') = Some (cpp_inner, [])"
    by code_simp
  show ?thesis unfolding first_block_def using 1 2 find_sub_leftmost by blast
qed

text \<open>
  C8.  A response that is one fenced block of C++: the opening fence with the language
  \<open>c++\<close>, the line \<open>int x;\<close>, the closing fence.  The trimmed contents of its first
  fenced block are \<open>int x;\<close>.  The pattern takes only \<open>c\<close> for the language, since
  \<open>+\<close> is no word character, and the code field begins with the rest of the language
  name.
\<close>

theorem language_tag_leaks_into_code:
  "first_block cpp_response cpp_inner \<and>
   trim (block_contents cpp_inner) = ''int x;'' \<and>
   code (parse_solution cpp_response) = ''++'' @ [CHR 0x0A] @ ''int x;'' \<and>
   code (parse_solution cpp_response) \<noteq> trim (block_contents cpp_inner)"
proof -
  have t: "trim (block_contents cpp_inner) = ''int x;''" by code_simp
  have c: "code (parse_solution cpp_response) = ''++'' @ [CHR 0x0A] @ ''int x;''"
    by code_simp
  have d: "code (parse_solution cpp_response) \<noteq> trim (block_contents cpp_inner)"
    unfolding t c by simp
  show ?thesis
    by (intro conjI) (rule cpp_first_block, rule t, rule c, rule d)
qed

theorem language_tag_leaks_into_code_witness:
  "code (parse_solution cpp_response) \<noteq> ''int x;''"
  using language_tag_leaks_into_code by simp

section \<open>Debug stage: the no-issues flag\<close>

lemma js_includes_iff: "js_includes s p \<longleftrightarrow> (\<exists>pre post. s = pre @ p @ post)"
proof (induction s)
  case Nil
  then show ?case by auto
next
  case (Cons c cs)
  show ?case
  proof
    assume "js_includes (c # cs) p"
    then consider "startsWith (c # cs) p" | "js_includes cs p" by auto
    then show "\<exists>pre post. c # cs = pre @ p @ post"
    proof cases
      case 1
      then obtain t where "c # cs = p @ t" using startsWith_iff by blast
      then have "c # cs = [] @ p @ t" by simp
      then show ?thesis by blast
    next
      case 2
      then obtain pre post where "cs = pre @ p @ post" using Cons.IH by blast
      then have "c # cs = (c # pre) @ p @ post" by simp
      then show ?thesis by blast
    qed
  next
    assume "\<exists>pre post. c # cs = pre @ p @ post"
    then obtain pre post where e: "c # cs = pre @ p @ post" by blast
    show "js_includes (c # cs) p"
    proof (cases pre)
      case Nil
      then have "startsWith (c # cs) p" using e startsWith_iff by auto
      then show ?thesis by simp
    next
      case (Cons d pre')
      then have "cs = pre' @ p @ post" using e by simp
      then have "js_includes cs p" using Cons.IH by blast
      then show ?thesis by simp
    qed
  qed
qed

lemma includes_lower: "js_includes (toLowerCase s) phrase \<longleftrightarrow> contains_ci s phrase"
proof
  assume "js_includes (toLowerCase s) phrase"
  then obtain pre post where "map lower_char s = pre @ phrase @ post"
    unfolding js_includes_iff toLowerCase_def by blast
  then obtain a b c where "s = a @ b @ c" "map lower_char b = phrase"
    by (metis map_eq_append_conv)
  then show "contains_ci s phrase" unfolding contains_ci_def toLowerCase_def by blast
next
  assume "contains_ci s phrase"
  then obtain pre w post where "s = pre @ w @ post" "toLowerCase w = phrase"
    unfolding contains_ci_def by blast
  then have "toLowerCase s = toLowerCase pre @ phrase @ toLowerCase post"
    by (auto simp: toLowerCase_def)
  then show "js_includes (toLowerCase s) phrase" unfolding js_includes_iff by blast
qed

lemma dropWhile_last_in: "\<not> P c \<Longrightarrow> c \<in> set (dropWhile P (xs @ [c]))"
  by (induction xs) auto

lemma dropWhile_all: "(\<forall>x\<in>set (dropWhile P s). P x) \<longleftrightarrow> (\<forall>x\<in>set s. P x)"
  by (induction s) auto

lemma trim_empty: "trim s = [] \<longleftrightarrow> (\<forall>x\<in>set s. is_space x)"
  by (simp add: trim_def trimStart_def trimEnd_def dropWhile_eq_Nil_conv dropWhile_all)

lemma trim_keeps_nonspace:
  assumes "trim s \<noteq> []"
  shows "\<exists>x\<in>set (trim s). \<not> is_space x"
proof -
  have "dropWhile is_space s \<noteq> []" using assms trim_empty dropWhile_eq_Nil_conv by blast
  then obtain c cs where u: "dropWhile is_space s = c # cs" by (cases "dropWhile is_space s") auto
  then have n: "\<not> is_space c" by (metis hd_dropWhile list.distinct(1) list.sel(1))
  have "trim s = rev (dropWhile is_space (rev cs @ [c]))"
    by (simp add: trim_def trimStart_def trimEnd_def u)
  then have "c \<in> set (trim s)" using dropWhile_last_in [of is_space c "rev cs"] n by simp
  then show ?thesis using n by blast
qed

lemma trim_trim_empty: "trim (trim s) = [] \<longleftrightarrow> trim s = []"
  using trim_keeps_nonspace [of s] trim_empty [of "trim s"] by auto

lemma trim_Nil: "trim [] = []"
  by (simp add: trim_def trimStart_def trimEnd_def)

lemma issues_trimmed:
  "trim (issues (debug_sections c)) = [] \<longleftrightarrow> issues (debug_sections c) = []"
  by (simp add: debug_sections_def marker_sections_def keyword_sections_def Let_def
        trimmed_or_empty_def trim_trim_empty trim_Nil split: option.splits)

lemma noIssuesFound_spec:
  "noIssuesFound (debug_sections c) \<longleftrightarrow> spec_no_issues (debug_sections c)"
  unfolding noIssuesFound_def spec_no_issues_def includes_lower issues_trimmed ..

text \<open>
  C4.  For every debug response the status of the result is \<open>NO_CHANGES\<close> exactly when
  the issues section contains \<open>no issues\<close>, \<open>code looks correct\<close> or \<open>not found\<close> in
  any case, or the code-changes section contains \<open>no code changes\<close> in any case, or
  the issues section is empty; and whenever the status is \<open>NO_CHANGES\<close> the code field is
  the sentinel \<open>__NO_CODE_CHANGES_NEEDED__\<close>.  The response of scenario C is such a
  case.
\<close>

theorem debug_no_issues_flag:
  "(dbg_status (parse_debug t) = NO_CHANGES
      \<longleftrightarrow> spec_no_issues (debug_sections (cleanContent t))) \<and>
   (dbg_status (parse_debug t) = NO_CHANGES \<longrightarrow>
      dbg_code (parse_debug t) = NO_CODE_CHANGES_NEEDED)"
  using noIssuesFound_spec [of "cleanContent t"]
  by (simp add: parse_debug_def Let_def debug_code_def)

lemma scenario_C_sections:
  "debug_sections (cleanContent scenario_C) =
     \<lparr>issues = ''No issues found in the visible code'',
      codeChanges = ''No code changes required.'',
      explanation = ''Code is correct.'',
      keyPoints = bullet @ '' Good job''\<rparr>"
  by code_simp

lemma scenario_C_result:
  "dbg_status (parse_debug scenario_C) = NO_CHANGES"
  "dbg_code (parse_debug scenario_C) = ''__NO_CODE_CHANGES_NEEDED__''"
  by code_simp+

theorem debug_no_issues_flag_witness:
  "dbg_status (parse_debug scenario_C) = NO_CHANGES \<and>
   dbg_code (parse_debug scenario_C) = ''__NO_CODE_CHANGES_NEEDED__'' \<and>
   issues (debug_sections (cleanContent scenario_C)) = ''No issues found in the visible code'' \<and>
   spec_no_issues (debug_sections (cleanContent scenario_C))"
  using debug_no_issues_flag [of scenario_C] scenario_C_result scenario_C_sections
  by simp

section \<open>Cancelling the initial pipeline\<close>

lemma requests_carry_no_signal:
  "initial (processScreenshots_start config st) = Extracting rq c \<Longrightarrow>
     initial st = Idle \<Longrightarrow> call_signal rq = None"
  by (auto simp: processScreenshots_start_def send_def Let_def split: if_splits)

lemma settle_without_signal: "call_signal rq = None \<Longrightarrow> settle st rq answer = answer"
  by (simp add: settle_def)

text \<open>
  C5.  The user cancels while the extraction request is in flight.  The request was
  issued without the signal, so aborting the controller does not touch it: it is
  answered, the stage stores the problem description that the cancellation had just
  cleared, the solution is generated, and the pipeline ends with the success event and
  the solutions view.  No cancelled outcome is reported.
\<close>

theorem cancel_leaves_pipeline_running:
  "initial (processScreenshots_start defaultConfig app0)
     = Extracting \<lparr>call_model = Str ''gpt-4o'', call_signal = None\<rparr> 0 \<and>
   aborted (cancelOngoingRequests (processScreenshots_start defaultConfig app0)) = [0] \<and>
   problemInfo (cancelOngoingRequests (processScreenshots_start defaultConfig app0)) = Null \<and>
   problemInfo cancelled_run = scenario_A \<and>
   app_view cancelled_run = Solutions \<and>
   initial cancelled_run = Finished (Inr (parse_solution ''print(1)'')) \<and>
   INITIAL_SOLUTION_ERROR canceled_message \<notin> set (sent cancelled_run)"
  by (simp add: cancelled_run_def app0_def processScreenshots_start_def send_def Let_def
      cancelOngoingRequests_def abort_controller_def extraction_settled_def settle_def
      extract_A_def after_extraction_def generateSolutions_start_def scenario_A_def
      solution_settled_def finish_initial_def defaultConfig_def field_def js_or_def)

theorem cancel_leaves_pipeline_running_witness:
  "problemInfo cancelled_run \<noteq> Null \<and> app_view cancelled_run = Solutions"
  using cancel_leaves_pipeline_running by (simp add: scenario_A_def)

end
